theory Spec2Isabelle
  imports Complex_Main
begin

section \<open>The JavaScript values the bill import handles\<close>

text \<open>
  The import endpoints of \<^verbatim>\<open>billImport.controller.ts\<close> and the parser of
  \<^verbatim>\<open>openRouterExtraction.service.ts\<close> work on untyped JSON data. A value is one of
  the JSON values or \<^verbatim>\<open>undefined\<close> (a property that is absent). Numbers are the
  finite numbers, taken exactly (as rationals): IEEE rounding and the infinities are outside
  this development. Strings are ASCII text.
\<close>

datatype jsval =
    JUndefined
  | JNull
  | JBool bool
  | JNum rat
  | JStr string
  | JArr "jsval list"
  | JObj "(string \<times> jsval) list"

text \<open>The result of a numeric conversion: a finite number or \<^verbatim>\<open>NaN\<close>.\<close>

datatype jsnum = NaN | Fin rat

text \<open>What the code can throw, and what its \<^verbatim>\<open>catch\<close> blocks see.\<close>

datatype exn =
    TypeError
  | SyntaxError
  | PersistenceError
  | Error string

text \<open>Truthiness, as \<^verbatim>\<open>if (v)\<close>, \<^verbatim>\<open>!v\<close> and \<^verbatim>\<open>v || w\<close> read it.\<close>

fun truthy :: "jsval \<Rightarrow> bool" where
  "truthy JUndefined = False"
| "truthy JNull = False"
| "truthy (JBool b) = b"
| "truthy (JNum n) = (n \<noteq> 0)"
| "truthy (JStr s) = (s \<noteq> [])"
| "truthy (JArr xs) = True"
| "truthy (JObj kvs) = True"

text \<open>\<^verbatim>\<open>a || b\<close>\<close>

definition or_js :: "jsval \<Rightarrow> jsval \<Rightarrow> jsval" where
  "or_js a b = (if truthy a then a else b)"

text \<open>
  \<^verbatim>\<open>v.key\<close>: reading a property of \<^verbatim>\<open>null\<close> or \<^verbatim>\<open>undefined\<close> throws a
  TypeError; an object gives the property's value or \<^verbatim>\<open>undefined\<close>; the other values
  have none of the properties the code reads (\<^verbatim>\<open>items\<close>, \<^verbatim>\<open>medicine_name\<close>, ...).
\<close>

fun get_prop :: "jsval \<Rightarrow> string \<Rightarrow> exn + jsval" where
  "get_prop JUndefined k = Inl TypeError"
| "get_prop JNull k = Inl TypeError"
| "get_prop (JObj kvs) k = Inr (case map_of kvs k of None \<Rightarrow> JUndefined | Some v \<Rightarrow> v)"
| "get_prop v k = Inr JUndefined"

subsection \<open>Characters and decimal numerals\<close>

definition is_digit :: "char \<Rightarrow> bool" where
  "is_digit c = (c \<in> set ''0123456789'')"

definition is_hex_digit :: "char \<Rightarrow> bool" where
  "is_hex_digit c = (c \<in> set ''0123456789abcdefABCDEF'')"

text \<open>The white space of \<^verbatim>\<open>\s\<close> and of numeric strings: TAB, LF, VT, FF, CR, SP.\<close>

definition is_space :: "char \<Rightarrow> bool" where
  "is_space c = (c \<in> {CHR 0x09, CHR 0x0A, CHR 0x0B, CHR 0x0C, CHR 0x0D, CHR 0x20})"

definition is_alnum :: "char \<Rightarrow> bool" where
  "is_alnum c =
     (c \<in> set ''abcdefghijklmnopqrstuvwxyzABCDEFGHIJKLMNOPQRSTUVWXYZ0123456789'')"

definition toUpperCase_char :: "char \<Rightarrow> char" where
  "toUpperCase_char c =
     (case map_of (zip ''abcdefghijklmnopqrstuvwxyz'' ''ABCDEFGHIJKLMNOPQRSTUVWXYZ'') c of
        None \<Rightarrow> c | Some u \<Rightarrow> u)"

definition toLowerCase_char :: "char \<Rightarrow> char" where
  "toLowerCase_char c =
     (case map_of (zip ''ABCDEFGHIJKLMNOPQRSTUVWXYZ'' ''abcdefghijklmnopqrstuvwxyz'') c of
        None \<Rightarrow> c | Some l \<Rightarrow> l)"

definition toUpperCase :: "string \<Rightarrow> string" where
  "toUpperCase s = map toUpperCase_char s"

definition toLowerCase :: "string \<Rightarrow> string" where
  "toLowerCase s = map toLowerCase_char s"

text \<open>The value of a digit (also of a hexadecimal one), and of a digit string in a base.\<close>

definition digit_val :: "char \<Rightarrow> nat" where
  "digit_val c =
     (case map_of (zip ''0123456789abcdef'' [0, 1, 2, 3, 4, 5, 6, 7, 8, 9, 10, 11, 12, 13, 14, 15])
             (toLowerCase_char c) of
        None \<Rightarrow> 0 | Some d \<Rightarrow> d)"

definition digits_val :: "nat \<Rightarrow> string \<Rightarrow> nat" where
  "digits_val base ds = foldl (\<lambda>a c. base * a + digit_val c) 0 ds"

text \<open>
  \<^verbatim>\<open>parseInt(s)\<close>, on the strings the code gives it: the digit groups of a regular
  expression match.
\<close>

definition parseInt :: "string \<Rightarrow> int" where
  "parseInt ds = int (digits_val 10 ds)"

text \<open>\<^verbatim>\<open>n.toString()\<close> and \<^verbatim>\<open>${n}\<close> for a natural number: its decimal digits.\<close>

definition digit_char :: "nat \<Rightarrow> char" where
  "digit_char d = ''0123456789'' ! d"

function show_nat :: "nat \<Rightarrow> string" where
  "show_nat n = (if n < 10 then [digit_char n] else show_nat (n div 10) @ [digit_char (n mod 10)])"
  by pat_completeness auto
termination
  by (relation "measure id") auto

declare show_nat.simps [simp del]

subsection \<open>Conversion to a number\<close>

text \<open>
  \<^verbatim>\<open>Number(s)\<close> on a string: white space is trimmed; the empty string is 0; otherwise
  the string must be, as a whole, a decimal literal (optional sign, digits, optional
  fraction, optional exponent) or an unsigned hexadecimal, octal or binary literal.
  The literal \<^verbatim>\<open>Infinity\<close> has no finite value and is not represented: it reads as
  \<^verbatim>\<open>NaN\<close> here.
\<close>

definition trim :: "string \<Rightarrow> string" where
  "trim s = rev (dropWhile is_space (rev (dropWhile is_space s)))"

definition exponent_part :: "string \<Rightarrow> int option" where
  "exponent_part r =
     (case r of
        [] \<Rightarrow> Some 0
      | c # r' \<Rightarrow>
          if c = CHR ''e'' \<or> c = CHR ''E'' then
            (case r' of
               [] \<Rightarrow> None
             | s # ds \<Rightarrow>
                 if s = CHR ''-'' then
                   (if ds \<noteq> [] \<and> list_all is_digit ds then Some (- int (digits_val 10 ds)) else None)
                 else if s = CHR ''+'' then
                   (if ds \<noteq> [] \<and> list_all is_digit ds then Some (int (digits_val 10 ds)) else None)
                 else
                   (if list_all is_digit r' then Some (int (digits_val 10 r')) else None))
          else None)"

definition scale10 :: "rat \<Rightarrow> int \<Rightarrow> rat" where
  "scale10 x e = (if 0 \<le> e then x * 10 ^ nat e else x / 10 ^ nat (- e))"

definition unsigned_decimal :: "string \<Rightarrow> jsnum" where
  "unsigned_decimal s =
     (let ip = takeWhile is_digit s;
          r1 = dropWhile is_digit s;
          fp = (case r1 of [] \<Rightarrow> [] | c # t \<Rightarrow> if c = CHR ''.'' then takeWhile is_digit t else []);
          r2 = (case r1 of [] \<Rightarrow> [] | c # t \<Rightarrow> if c = CHR ''.'' then dropWhile is_digit t else r1)
      in if ip = [] \<and> fp = [] then NaN
         else (case exponent_part r2 of
                 None \<Rightarrow> NaN
               | Some e \<Rightarrow>
                   Fin (scale10 (of_nat (digits_val 10 (ip @ fp)) / 10 ^ length fp) e)))"

definition radix_literal :: "string \<Rightarrow> jsnum option" where
  "radix_literal s =
     (case s of
        z # x # ds \<Rightarrow>
          if z \<noteq> CHR ''0'' then None
          else if x = CHR ''x'' \<or> x = CHR ''X'' then
            Some (if ds \<noteq> [] \<and> list_all is_hex_digit ds then Fin (of_nat (digits_val 16 ds)) else NaN)
          else if x = CHR ''o'' \<or> x = CHR ''O'' then
            Some (if ds \<noteq> [] \<and> list_all (\<lambda>c. c \<in> set ''01234567'') ds
                  then Fin (of_nat (digits_val 8 ds)) else NaN)
          else if x = CHR ''b'' \<or> x = CHR ''B'' then
            Some (if ds \<noteq> [] \<and> list_all (\<lambda>c. c \<in> set ''01'') ds
                  then Fin (of_nat (digits_val 2 ds)) else NaN)
          else None
      | _ \<Rightarrow> None)"

definition StringToNumber :: "string \<Rightarrow> jsnum" where
  "StringToNumber str =
     (let s = trim str in
      case s of
        [] \<Rightarrow> Fin 0
      | c # t \<Rightarrow>
          (case radix_literal s of
             Some n \<Rightarrow> n
           | None \<Rightarrow>
               if c = CHR ''-'' then
                 (case unsigned_decimal t of NaN \<Rightarrow> NaN | Fin x \<Rightarrow> Fin (- x))
               else if c = CHR ''+'' then unsigned_decimal t
               else unsigned_decimal s))"

text \<open>
  \<^verbatim>\<open>Number(v)\<close>. An array converts through its string form, the elements joined
  by commas with \<^verbatim>\<open>null\<close> and \<^verbatim>\<open>undefined\<close> as the empty string: the empty array
  is 0, a one-element array converts as its element's string does (a number prints and
  reads back as itself), and a longer array contains a comma, which no numeric string
  does. An object prints as \<^verbatim>\<open>[object Object]\<close>.
\<close>

fun Number :: "jsval \<Rightarrow> jsnum" where
  "Number JUndefined = NaN"
| "Number JNull = Fin 0"
| "Number (JBool b) = Fin (if b then 1 else 0)"
| "Number (JNum n) = Fin n"
| "Number (JStr s) = StringToNumber s"
| "Number (JObj kvs) = NaN"
| "Number (JArr []) = Fin 0"
| "Number (JArr [JUndefined]) = Fin 0"
| "Number (JArr [JNull]) = Fin 0"
| "Number (JArr [JBool b]) = NaN"
| "Number (JArr [JNum n]) = Fin n"
| "Number (JArr [JStr s]) = StringToNumber s"
| "Number (JArr [JObj kvs]) = NaN"
| "Number (JArr [JArr xs]) = Number (JArr xs)"
| "Number (JArr (x # y # zs)) = NaN"

text \<open>\<^verbatim>\<open>n || 0\<close> for a number \<^verbatim>\<open>n\<close>: \<^verbatim>\<open>NaN\<close> and 0 are falsy.\<close>

fun or_0 :: "jsnum \<Rightarrow> rat" where
  "or_0 NaN = 0"
| "or_0 (Fin x) = (if x \<noteq> 0 then x else 0)"

subsection \<open>Dates\<close>

text \<open>
  A \<^verbatim>\<open>Date\<close>, by its fields in local time: year, month (1 to 12), day of the month and
  the milliseconds since midnight.
\<close>

record js_date =
  d_year :: int
  d_month :: nat
  d_day :: nat
  d_time :: nat

text \<open>
  \<^verbatim>\<open>new Date(year, monthIndex, 1)\<close>: a year from 0 to 99 stands for 1900 + year, and
  a month index outside 0 .. 11 carries into the year.
\<close>

definition new_Date_day1 :: "int \<Rightarrow> int \<Rightarrow> js_date" where
  "new_Date_day1 year monthIndex =
     (let yr = (if 0 \<le> year \<and> year \<le> 99 then 1900 + year else year)
      in \<lparr> d_year = yr + monthIndex div 12,
           d_month = nat (monthIndex mod 12) + 1,
           d_day = 1,
           d_time = 0 \<rparr>)"

subsection \<open>What the model leaves to its environment\<close>

text \<open>
  Library functions whose results the code only passes on are parameters of the model:
  \<^verbatim>\<open>JSON.parse\<close> (\<open>None\<close> when it throws a SyntaxError), the printing of a number by
  \<^verbatim>\<open>String(n)\<close>, \<^verbatim>\<open>new Date(s)\<close> on a string (\<open>None\<close> when the date is invalid,
  that is when \<^verbatim>\<open>getTime()\<close> is \<^verbatim>\<open>NaN\<close>), and \<^verbatim>\<open>normalizeMedicineName\<close> of
  \<^verbatim>\<open>medicineNormalize.service\<close>, which is not part of the sources at hand.
\<close>

record runtime =
  JSON_parse :: "string \<Rightarrow> jsval option"
  Number_toString :: "rat \<Rightarrow> string"
  Date_parse :: "string \<Rightarrow> js_date option"
  normalizeMedicineName :: "string \<Rightarrow> string"

section \<open>Expiry dates: \<^verbatim>\<open>parseExpiryDate\<close>\<close>

text \<open>
  \<^verbatim>\<open>dateStr.match(/^(\d{1,2})[\/\-](\d{2})$/)\<close>: the two groups when the whole string
  is one or two digits, a slash or a hyphen, and two digits. The separator is not a
  digit, so the first group is the string's whole leading run of digits.
\<close>

definition shortMatch :: "string \<Rightarrow> (string \<times> string) option" where
  "shortMatch dateStr =
     (let g1 = takeWhile is_digit dateStr; r = dropWhile is_digit dateStr
      in case r of
           [] \<Rightarrow> None
         | sep # g2 \<Rightarrow>
             if (length g1 = 1 \<or> length g1 = 2) \<and> (sep = CHR ''/'' \<or> sep = CHR ''-'')
                \<and> length g2 = 2 \<and> list_all is_digit g2
             then Some (g1, g2) else None)"

text \<open>\<^verbatim>\<open>dateStr.match(/^(\d{4})-(\d{1,2})$/)\<close>\<close>

definition isoMatch :: "string \<Rightarrow> (string \<times> string) option" where
  "isoMatch dateStr =
     (let g1 = takeWhile is_digit dateStr; r = dropWhile is_digit dateStr
      in case r of
           [] \<Rightarrow> None
         | sep # g2 \<Rightarrow>
             if length g1 = 4 \<and> sep = CHR ''-''
                \<and> (length g2 = 1 \<or> length g2 = 2) \<and> list_all is_digit g2
             then Some (g1, g2) else None)"

definition parseExpiryDate :: "runtime \<Rightarrow> string \<Rightarrow> js_date option" where
  "parseExpiryDate rt dateStr =
     (if dateStr = [] then None
      else case shortMatch dateStr of
        Some (g1, g2) \<Rightarrow>
          (let month = parseInt g1;
               year = parseInt g2;
               year = (if year < 50 then 2000 + year else 1900 + year)
           in Some (new_Date_day1 year (month - 1)))
      | None \<Rightarrow>
          (case isoMatch dateStr of
             Some (g1, g2) \<Rightarrow> Some (new_Date_day1 (parseInt g1) (parseInt g2 - 1))
           | None \<Rightarrow> Date_parse rt dateStr))"

section \<open>The inventory and its persistence layer\<close>

text \<open>
  Modelled from the spec: the \<^verbatim>\<open>Product\<close> table is declared in the Prisma schema,
  which is not part of the sources at hand. Its columns are those the controller reads
  and writes; following the spec's data model, \<^verbatim>\<open>batchNumber\<close>, \<^verbatim>\<open>expiryDate\<close>
  and \<^verbatim>\<open>manufacturer\<close> are nullable (\<open>None\<close> is \<^verbatim>\<open>null\<close>), and so are the
  decimal prices, which the controller tests before use. The fields carry the prefix
  \<open>p_\<close>. A database is the list of its rows.
\<close>

record product =
  p_id :: nat
  p_storeId :: string
  p_name :: string
  p_sku :: string
  p_quantity :: rat
  p_batchNumber :: "string option"
  p_expiryDate :: "js_date option"
  p_mrp :: "rat option"
  p_costPrice :: "rat option"
  p_sellingPrice :: "rat option"
  p_manufacturer :: "string option"
  p_category :: string
  p_unit :: string
  p_reorderLevel :: int
  p_description :: "string option"

text \<open>
  What happens around one item of a request, outside the program's control: whether the
  query and the write fail, the clock (\<^verbatim>\<open>Date.now()\<close>) and the random number
  (\<^verbatim>\<open>Math.floor(Math.random() * 999)\<close>).
\<close>

record item_env =
  find_fails :: bool
  write_fails :: bool
  now :: nat
  random :: nat

text \<open>
  Modelled from the spec: \<^verbatim>\<open>prisma.product.findMany\<close> with the store and
  \<^verbatim>\<open>name: { equals: name, mode: 'insensitive' }\<close> returns the store's rows whose name
  equals the given one case-insensitively; \<open>None\<close> when the call throws.
\<close>

definition findMany :: "item_env \<Rightarrow> string \<Rightarrow> string \<Rightarrow> product list \<Rightarrow> product list option" where
  "findMany e storeId name db =
     (if find_fails e then None
      else Some (filter (\<lambda>p. p_storeId p = storeId \<and> toLowerCase (p_name p) = toLowerCase name) db))"

text \<open>
  The \<^verbatim>\<open>data\<close> of \<^verbatim>\<open>prisma.product.update\<close> as the controller builds it: a field
  that is \<^verbatim>\<open>undefined\<close> (\<open>None\<close>) is left as it is in the row.
\<close>

record update_data =
  u_quantity :: rat
  u_mrp :: rat
  u_costPrice :: rat
  u_sellingPrice :: rat
  u_batchNumber :: "string option"
  u_expiryDate :: "js_date option"
  u_manufacturer :: "string option"

definition apply_update :: "update_data \<Rightarrow> product \<Rightarrow> product" where
  "apply_update d p =
     p \<lparr> p_quantity := u_quantity d,
         p_mrp := Some (u_mrp d),
         p_costPrice := Some (u_costPrice d),
         p_sellingPrice := Some (u_sellingPrice d),
         p_batchNumber := (case u_batchNumber d of None \<Rightarrow> p_batchNumber p | Some b \<Rightarrow> Some b),
         p_expiryDate := (case u_expiryDate d of None \<Rightarrow> p_expiryDate p | Some x \<Rightarrow> Some x),
         p_manufacturer := (case u_manufacturer d of None \<Rightarrow> p_manufacturer p | Some m \<Rightarrow> Some m) \<rparr>"

text \<open>
  Modelled from the spec: \<^verbatim>\<open>prisma.product.update({ where: { id }, data })\<close> rewrites
  the row with that id; it throws when the write fails or no row has the id.
\<close>

definition update :: "item_env \<Rightarrow> nat \<Rightarrow> update_data \<Rightarrow> product list \<Rightarrow> product list option" where
  "update e i d db =
     (if write_fails e \<or> i \<notin> p_id ` set db then None
      else Some (map (\<lambda>p. if p_id p = i then apply_update d p else p) db))"

text \<open>
  Modelled from the spec: \<^verbatim>\<open>prisma.product.create({ data })\<close> adds the row under an
  id of the database's choice (here the least one above every id in use; the id in
  \<open>data\<close> is not read); it throws when the write fails.
\<close>

definition fresh_id :: "product list \<Rightarrow> nat" where
  "fresh_id db = Suc (fold max (map p_id db) 0)"

definition create :: "item_env \<Rightarrow> product \<Rightarrow> product list \<Rightarrow> product list option" where
  "create e data db =
     (if write_fails e then None else Some (db @ [data \<lparr> p_id := fresh_id db \<rparr>]))"

section \<open>Reconciliation: \<^verbatim>\<open>confirmImport\<close>\<close>

text \<open>
  One medicine of a bill, as interface \<^verbatim>\<open>ExtractedMedicine\<close> declares it. The parser
  produces it with numbers in the numeric fields (\<open>rat medicine\<close>); in the body of a
  confirm request the numeric fields are any JSON value (\<open>jsval medicine\<close>), which is why
  the controller converts them. The name, the batch number and the expiry date are
  strings, as the interface and the parameters of \<^verbatim>\<open>generateSku\<close> declare.
\<close>

record 'n medicine =
  medicine_name :: string
  quantity :: 'n
  batch_number :: string
  expiry_date :: string
  mrp :: 'n
  rate :: 'n

text \<open>An item of a confirm request may also name its supplier.\<close>

record 'n confirm_item = "'n medicine" +
  supplier :: "string option"

text \<open>
  \<^verbatim>\<open>generateSku(name, batch)\<close>, given the clock and the random number it draws.
\<close>

definition generateSku :: "item_env \<Rightarrow> string \<Rightarrow> string \<Rightarrow> string" where
  "generateSku e name batch =
     (let cleanName = toUpperCase (take 3 name);
          cleanBatch = (if batch \<noteq> [] then filter is_alnum batch else take 6 (show_nat (now e)));
          random = random e
      in cleanName @ ''-'' @ cleanBatch @ ''-'' @ show_nat random)"

text \<open>A string or \<^verbatim>\<open>undefined\<close>: \<^verbatim>\<open>s || undefined\<close>.\<close>

definition or_undefined :: "string \<Rightarrow> string option" where
  "or_undefined s = (if s \<noteq> [] then Some s else None)"

text \<open>\<^verbatim>\<open>a || b\<close> where \<^verbatim>\<open>a\<close> is a string or \<^verbatim>\<open>null\<close>.\<close>

definition or_str :: "string option \<Rightarrow> string option \<Rightarrow> string option" where
  "or_str a b = (case a of None \<Rightarrow> b | Some s \<Rightarrow> if s \<noteq> [] then Some s else b)"

datatype tally = Created | Updated

text \<open>\<^verbatim>\<open>existingProducts.find(p => p.batchNumber === batch)\<close>\<close>

definition exact_batch_match :: "product list \<Rightarrow> string \<Rightarrow> product option" where
  "exact_batch_match existingProducts batch =
     find (\<lambda>p. p_batchNumber p = Some batch) existingProducts"

text \<open>The \<^verbatim>\<open>data\<close> of the update path, from the matched row and the item.\<close>

definition update_of :: "runtime \<Rightarrow> product \<Rightarrow> jsval confirm_item \<Rightarrow> update_data" where
  "update_of rt exactBatchMatch item =
     (let batch = batch_number item;
          mrpValue = or_0 (Number (mrp item));
          costPriceValue = or_0 (Number (rate item));
          quantityValue = or_0 (Number (quantity item));
          expiryValue = (if expiry_date item \<noteq> [] then parseExpiryDate rt (expiry_date item) else None);
          existingMrp = (case p_mrp exactBatchMatch of None \<Rightarrow> 0 | Some d \<Rightarrow> d);
          existingCostPrice = (case p_costPrice exactBatchMatch of None \<Rightarrow> 0 | Some d \<Rightarrow> d);
          existingSellingPrice = (case p_sellingPrice exactBatchMatch of None \<Rightarrow> 0 | Some d \<Rightarrow> d);
          existingQty = (if p_quantity exactBatchMatch \<noteq> 0 then p_quantity exactBatchMatch else 0)
      in \<lparr> u_quantity = existingQty + quantityValue,
           u_mrp = (if existingMrp > 0 then existingMrp else mrpValue),
           u_costPrice = (if existingCostPrice > 0 then existingCostPrice else costPriceValue),
           u_sellingPrice = (if existingSellingPrice > 0 then existingSellingPrice else mrpValue),
           u_batchNumber = or_str (p_batchNumber exactBatchMatch) (or_undefined batch),
           u_expiryDate = (case p_expiryDate exactBatchMatch of None \<Rightarrow> expiryValue | Some x \<Rightarrow> Some x),
           u_manufacturer =
             or_str (p_manufacturer exactBatchMatch)
               (case supplier item of None \<Rightarrow> None | Some s \<Rightarrow> or_undefined s) \<rparr>)"

text \<open>
  The \<^verbatim>\<open>data\<close> of the create path, from the rows of the same name and the item;
  \<^verbatim>\<open>blueprint\<close> is \<^verbatim>\<open>existingProducts[0]\<close>, \<^verbatim>\<open>undefined\<close> when there is none.
\<close>

definition create_of :: "runtime \<Rightarrow> item_env \<Rightarrow> string \<Rightarrow> product list \<Rightarrow> jsval confirm_item \<Rightarrow> product" where
  "create_of rt e storeId existingProducts item =
     (let batch = batch_number item;
          mrpValue = or_0 (Number (mrp item));
          costPriceValue = or_0 (Number (rate item));
          quantityValue = or_0 (Number (quantity item));
          expiryValue = (if expiry_date item \<noteq> [] then parseExpiryDate rt (expiry_date item) else None);
          blueprint = (case existingProducts of [] \<Rightarrow> None | b # bs \<Rightarrow> Some b)
      in \<lparr> p_id = 0,
           p_storeId = storeId,
           p_name = medicine_name item,
           p_sku = generateSku e (medicine_name item) batch,
           p_quantity = quantityValue,
           p_batchNumber = or_undefined batch,
           p_expiryDate = expiryValue,
           p_mrp = Some mrpValue,
           p_costPrice = Some costPriceValue,
           p_sellingPrice = Some mrpValue,
           p_manufacturer = (case supplier item of None \<Rightarrow> None | Some s \<Rightarrow> or_undefined s),
           p_category = (case blueprint of Some b \<Rightarrow> p_category b | None \<Rightarrow> ''MEDICINE''),
           p_unit = (case blueprint of Some b \<Rightarrow> p_unit b | None \<Rightarrow> ''pcs''),
           p_reorderLevel = (case blueprint of Some b \<Rightarrow> p_reorderLevel b | None \<Rightarrow> 10),
           p_description = Some ''Imported from Supplier Bill'' \<rparr>)"

text \<open>
  The body of the loop over the items: the outcome for one item (the tally it increments,
  or what was thrown) and the database after it.
\<close>

definition reconcile_item ::
  "runtime \<Rightarrow> item_env \<Rightarrow> string \<Rightarrow> jsval confirm_item \<Rightarrow> product list \<Rightarrow> (exn + tally) \<times> product list" where
  "reconcile_item rt e storeId item db =
     (case findMany e storeId (medicine_name item) db of
        None \<Rightarrow> (Inl PersistenceError, db)
      | Some existingProducts \<Rightarrow>
          (case exact_batch_match existingProducts (batch_number item) of
             Some exactBatchMatch \<Rightarrow>
               (case update e (p_id exactBatchMatch) (update_of rt exactBatchMatch item) db of
                  None \<Rightarrow> (Inl PersistenceError, db)
                | Some db' \<Rightarrow> (Inr Updated, db'))
           | None \<Rightarrow>
               (case create e (create_of rt e storeId existingProducts item) db of
                  None \<Rightarrow> (Inl PersistenceError, db)
                | Some db' \<Rightarrow> (Inr Created, db'))))"

text \<open>
  The loop \<^verbatim>\<open>for (const item of items)\<close>, from item number \<open>k\<close> on, with the two
  counters; \<open>env k\<close> is the environment of item \<open>k\<close>. A throw leaves the loop: the
  counters are lost, the database stays as the earlier items left it.
\<close>

fun reconcile ::
  "runtime \<Rightarrow> (nat \<Rightarrow> item_env) \<Rightarrow> string \<Rightarrow> nat \<Rightarrow> jsval confirm_item list \<Rightarrow> nat \<times> nat \<Rightarrow> product list
     \<Rightarrow> (exn + nat \<times> nat) \<times> product list" where
  "reconcile rt env storeId k [] (created, updated) db = (Inr (created, updated), db)"
| "reconcile rt env storeId k (item # items) (created, updated) db =
     (case reconcile_item rt (env k) storeId item db of
        (Inl err, db') \<Rightarrow> (Inl err, db')
      | (Inr Created, db') \<Rightarrow> reconcile rt env storeId (Suc k) items (Suc created, updated) db'
      | (Inr Updated, db') \<Rightarrow> reconcile rt env storeId (Suc k) items (created, Suc updated) db')"

text \<open>The response \<^verbatim>\<open>res.status(n).json({ success, message })\<close>.\<close>

record response =
  status :: nat
  success :: bool
  message :: string

definition confirmed_message :: "nat \<Rightarrow> nat \<Rightarrow> string" where
  "confirmed_message created updated =
     ''Import confirmed. '' @ show_nat created @ '' new batches, '' @ show_nat updated @ '' stock updates.''"

text \<open>
  \<^verbatim>\<open>confirmImport\<close>, on the request's store id (\<open>None\<close> when absent), the request
  body's \<^verbatim>\<open>items\<close> (\<open>None\<close> when not an array) and the database: the response and
  the database afterwards.
\<close>

definition confirmImport ::
  "runtime \<Rightarrow> (nat \<Rightarrow> item_env) \<Rightarrow> string option \<Rightarrow> jsval confirm_item list option \<Rightarrow> product list
     \<Rightarrow> response \<times> product list" where
  "confirmImport rt env storeId items db =
     (case (storeId, items) of
        (Some sid, Some its) \<Rightarrow>
          if sid = [] then (\<lparr> status = 400, success = False, message = ''Invalid request'' \<rparr>, db)
          else
            (case reconcile rt env sid 0 its (0, 0) db of
               (Inr (created, updated), db') \<Rightarrow>
                 (\<lparr> status = 200, success = True, message = confirmed_message created updated \<rparr>, db')
             | (Inl err, db') \<Rightarrow>
                 (\<lparr> status = 500, success = False, message = ''Failed to save inventory'' \<rparr>, db'))
      | _ \<Rightarrow> (\<lparr> status = 400, success = False, message = ''Invalid request'' \<rparr>, db))"


section \<open>The parser: \<^verbatim>\<open>parseBillText\<close>\<close>

subsection \<open>Conversion to a string\<close>

text \<open>
  \<^verbatim>\<open>String(v)\<close>. A number prints as the runtime prints it; an array prints its elements
  joined by commas, with \<^verbatim>\<open>null\<close> and \<^verbatim>\<open>undefined\<close> as the empty string; an object
  prints as \<^verbatim>\<open>[object Object]\<close> (objects that carry a \<^verbatim>\<open>toString\<close> or \<^verbatim>\<open>valueOf\<close>
  key of their own are not considered).
\<close>

fun ToString :: "runtime \<Rightarrow> jsval \<Rightarrow> string"
  and join_elements :: "runtime \<Rightarrow> jsval list \<Rightarrow> string" where
  "ToString rt JUndefined = ''undefined''"
| "ToString rt JNull = ''null''"
| "ToString rt (JBool b) = (if b then ''true'' else ''false'')"
| "ToString rt (JNum n) = Number_toString rt n"
| "ToString rt (JStr s) = s"
| "ToString rt (JObj kvs) = ''[object Object]''"
| "ToString rt (JArr xs) = join_elements rt xs"
| "join_elements rt [] = []"
| "join_elements rt [x] = (if x = JUndefined \<or> x = JNull then [] else ToString rt x)"
| "join_elements rt (x # y # zs) =
     (if x = JUndefined \<or> x = JNull then [] else ToString rt x) @ '','' @ join_elements rt (y # zs)"

subsection \<open>Finding the JSON text in the model's reply\<close>

text \<open>\<^verbatim>\<open>s.indexOf(pat)\<close>: the first position where \<open>pat\<close> starts, \<open>None\<close> for -1.\<close>

fun indexOf :: "string \<Rightarrow> string \<Rightarrow> nat option" where
  "indexOf [] pat = (if pat = [] then Some 0 else None)"
| "indexOf (c # s) pat =
     (if take (length pat) (c # s) = pat then Some 0 else map_option Suc (indexOf s pat))"

text \<open>\<^verbatim>\<open>s.lastIndexOf(c)\<close> for a character \<open>c\<close>.\<close>

definition lastIndexOf :: "string \<Rightarrow> char \<Rightarrow> nat option" where
  "lastIndexOf s c =
     (case indexOf (rev s) [c] of None \<Rightarrow> None | Some i \<Rightarrow> Some (length s - 1 - i))"

text \<open>
  \<^verbatim>\<open>s.substring(a, b)\<close>: the two positions are swapped when \<open>a > b\<close>, and cut at the
  string's length.
\<close>

definition substring :: "string \<Rightarrow> nat \<Rightarrow> nat \<Rightarrow> string" where
  "substring s a b = (let lo = min a b; hi = max a b in take (hi - lo) (drop lo s))"

text \<open>Three backquotes: the fence of a code block.\<close>

definition fence :: string where
  "fence = [CHR 0x60, CHR 0x60, CHR 0x60]"

text \<open>
  The regular expressions \<^verbatim>\<open>/[fence]json\s*([\s\S]*?)\s*[fence]/\<close> and
  \<^verbatim>\<open>/[fence]\s*([\s\S]*?)\s*[fence]/\<close>. After the first occurrence of the opener
  and the white space behind it, the group is the shortest text after which white space
  and a fence follow; \<open>closes s\<close> says that \<^verbatim>\<open>\s*[fence]\<close> matches at the start of
  \<open>s\<close>. (When the first occurrence of the opener has no closing fence behind it, no
  later occurrence has one either, so the first occurrence decides.)
\<close>

definition closes :: "string \<Rightarrow> bool" where
  "closes s = (take 3 (dropWhile is_space s) = fence)"

fun lazy_group :: "string \<Rightarrow> string option" where
  "lazy_group [] = None"
| "lazy_group (c # s) = (if closes (c # s) then Some [] else map_option ((#) c) (lazy_group s))"

definition fenced_block :: "string \<Rightarrow> string \<Rightarrow> string option" where
  "fenced_block opener s =
     (case indexOf s opener of
        None \<Rightarrow> None
      | Some i \<Rightarrow> lazy_group (dropWhile is_space (drop (i + length opener) s)))"

text \<open>
  The ``robust JSON extraction'' of \<^verbatim>\<open>parseBillText\<close>: the group of the first regular
  expression that matches; else the text from the first \<^verbatim>\<open>{\<close> to the last \<^verbatim>\<open>}\<close>
  when both occur; else the string as it is.
\<close>

definition extract_json :: "string \<Rightarrow> string" where
  "extract_json jsonStr =
     (let jsonMatch = (case fenced_block (fence @ ''json'') jsonStr of
                         Some g \<Rightarrow> Some g
                       | None \<Rightarrow> fenced_block fence jsonStr)
      in case jsonMatch of
           Some g \<Rightarrow> g
         | None \<Rightarrow>
             (case (indexOf jsonStr ''{'', lastIndexOf jsonStr (CHR ''}'')) of
                (Some firstBrace, Some lastBrace) \<Rightarrow> substring jsonStr firstBrace (lastBrace + 1)
              | _ \<Rightarrow> jsonStr))"

subsection \<open>The parsed bill\<close>

text \<open>
  Interface \<^verbatim>\<open>ParsedBillData\<close>: the invoice fields are passed on as the model gave
  them (\<^verbatim>\<open>undefined\<close> when absent), the total is a number or absent.
\<close>

record invoice_data =
  invoiceNumber :: jsval
  invoiceDate :: jsval
  supplierName :: jsval
  totalAmount :: "rat option"

record ParsedBillData = invoice_data +
  items :: "rat medicine list"

text \<open>\<^verbatim>\<open>{ items: [] }\<close>, what the \<^verbatim>\<open>catch\<close> block returns.\<close>

definition no_items :: ParsedBillData where
  "no_items =
     \<lparr> invoiceNumber = JUndefined, invoiceDate = JUndefined, supplierName = JUndefined,
       totalAmount = None, items = [] \<rparr>"

text \<open>A property of a value that is not \<^verbatim>\<open>null\<close> or \<^verbatim>\<open>undefined\<close>.\<close>

definition read_prop :: "jsval \<Rightarrow> string \<Rightarrow> jsval" where
  "read_prop v k = (case get_prop v k of Inl e \<Rightarrow> JUndefined | Inr x \<Rightarrow> x)"

text \<open>
  The function mapped over \<^verbatim>\<open>parsed.items\<close> (``normalize and validate items''). Its
  first property access throws when the item is \<^verbatim>\<open>null\<close>.
\<close>

definition normalize_item :: "runtime \<Rightarrow> jsval \<Rightarrow> exn + rat medicine" where
  "normalize_item rt item =
     (case get_prop item ''medicine_name'' of
        Inl e \<Rightarrow> Inl e
      | Inr name \<Rightarrow>
          Inr \<lparr> medicine_name = ToString rt (or_js name (or_js (read_prop item ''productName'') (JStr []))),
                quantity = or_0 (Number (read_prop item ''quantity'')),
                batch_number =
                  ToString rt (or_js (read_prop item ''batch_number'')
                                 (or_js (read_prop item ''batchNumber'') (JStr []))),
                expiry_date =
                  ToString rt (or_js (read_prop item ''expiry_date'')
                                 (or_js (read_prop item ''expiryDate'') (JStr []))),
                mrp = or_0 (Number (read_prop item ''mrp'')),
                rate = or_0 (Number (read_prop item ''rate'')) \<rparr>)"

text \<open>\<^verbatim>\<open>xs.map(normalize_item)\<close>: the first throw ends it.\<close>

fun map_items :: "runtime \<Rightarrow> jsval list \<Rightarrow> exn + rat medicine list" where
  "map_items rt [] = Inr []"
| "map_items rt (x # xs) =
     (case normalize_item rt x of
        Inl e \<Rightarrow> Inl e
      | Inr m \<Rightarrow> (case map_items rt xs of Inl e \<Rightarrow> Inl e | Inr ms \<Rightarrow> Inr (m # ms)))"

text \<open>
  What the request \<^verbatim>\<open>openai.chat.completions.create\<close> comes back with: the call is
  rejected with an error message (a transport or service failure), or the response has no
  \<^verbatim>\<open>choices[0].message\<close>, or it has one with a content that is a string or \<^verbatim>\<open>null\<close>.
\<close>

datatype chat_reply = Rejected string | NoMessage | Content "string option"

text \<open>The \<^verbatim>\<open>try\<close> block of \<^verbatim>\<open>parseBillText\<close>, given the reply to its request.\<close>

definition parseBillText_try :: "runtime \<Rightarrow> chat_reply \<Rightarrow> exn + ParsedBillData" where
  "parseBillText_try rt reply =
     (case reply of
        Rejected msg \<Rightarrow> Inl (Error msg)
      | NoMessage \<Rightarrow> Inl TypeError
      | Content content \<Rightarrow>
          (let jsonStr = (case content of None \<Rightarrow> ''{}'' | Some s \<Rightarrow> if s \<noteq> [] then s else ''{}'');
               jsonStr = extract_json jsonStr
           in case JSON_parse rt jsonStr of
                None \<Rightarrow> Inl SyntaxError
              | Some parsed \<Rightarrow>
                  (case get_prop parsed ''items'' of
                     Inl e \<Rightarrow> Inl e
                   | Inr parsed_items \<Rightarrow>
                       (case or_js parsed_items (JArr []) of
                          JArr xs \<Rightarrow>
                            (case map_items rt xs of
                               Inl e \<Rightarrow> Inl e
                             | Inr normalized \<Rightarrow>
                                 Inr \<lparr> invoiceNumber = read_prop parsed ''invoiceNumber'',
                                       invoiceDate = read_prop parsed ''invoiceDate'',
                                       supplierName = read_prop parsed ''supplierName'',
                                       totalAmount = Some (or_0 (Number (read_prop parsed ''totalAmount''))),
                                       items = normalized \<rparr>)
                        | _ \<Rightarrow> Inl TypeError))))"

text \<open>
  \<^verbatim>\<open>parseBillText(text)\<close>, where \<open>chat\<close> gives the reply to the request made for a
  text: the \<^verbatim>\<open>catch\<close> block turns whatever the \<^verbatim>\<open>try\<close> block throws into
  \<^verbatim>\<open>{ items: [] }\<close>. The result is \<open>Inl\<close> for a rejected promise and \<open>Inr\<close> for a
  fulfilled one.
\<close>

definition parseBillText :: "runtime \<Rightarrow> (string \<Rightarrow> chat_reply) \<Rightarrow> string \<Rightarrow> exn + ParsedBillData" where
  "parseBillText rt chat text =
     (case parseBillText_try rt (chat text) of
        Inl error \<Rightarrow> Inr no_items
      | Inr bill \<Rightarrow> Inr bill)"

section \<open>The orchestrator: \<^verbatim>\<open>importBill\<close>\<close>

text \<open>
  What happens around one page image: whether reading the file throws (with which
  message), what the vision request comes back with, and how the parsing request
  replies.
\<close>

datatype vision_reply = VisionRejected | VisionContent "string option"

record page_env =
  read_error :: "string option"
  vision :: vision_reply
  chat :: "string \<Rightarrow> chat_reply"

text \<open>
  \<^verbatim>\<open>extractTextFromImage\<close>: the text, or the message of the error it throws. A failure
  of the request is rethrown under a fixed message.
\<close>

definition extractTextFromImage :: "page_env \<Rightarrow> string + string" where
  "extractTextFromImage page =
     (case read_error page of
        Some msg \<Rightarrow> Inl msg
      | None \<Rightarrow>
          (case vision page of
             VisionRejected \<Rightarrow> Inl ''Failed to extract text from image using OpenRouter''
           | VisionContent content \<Rightarrow> Inr (case content of None \<Rightarrow> [] | Some s \<Rightarrow> s)))"

text \<open>\<^verbatim>\<open>let invoiceData = {}\<close>\<close>

definition empty_invoice :: invoice_data where
  "empty_invoice =
     \<lparr> invoiceNumber = JUndefined, invoiceDate = JUndefined, supplierName = JUndefined,
       totalAmount = None \<rparr>"

text \<open>
  The loop \<^verbatim>\<open>for (const imgPath of tempImages)\<close> with its two accumulators; a throw
  leaves it with the error's message. (The deletion of the processed images is not
  modelled.)
\<close>

fun process_pages ::
  "runtime \<Rightarrow> page_env list \<Rightarrow> rat medicine list \<times> invoice_data
     \<Rightarrow> string + rat medicine list \<times> invoice_data" where
  "process_pages rt [] (allItems, invoiceData) = Inr (allItems, invoiceData)"
| "process_pages rt (page # pages) (allItems, invoiceData) =
     (case extractTextFromImage page of
        Inl msg \<Rightarrow> Inl msg
      | Inr text \<Rightarrow>
          (case parseBillText rt (chat page) text of
             Inl e \<Rightarrow> Inl ''Import failed''
           | Inr parsed \<Rightarrow>
               process_pages rt pages
                 (allItems @ items parsed,
                  if \<not> truthy (invoiceNumber invoiceData) \<and> truthy (invoiceNumber parsed)
                  then \<lparr> invoiceNumber = invoiceNumber parsed,
                         invoiceDate = invoiceDate parsed,
                         supplierName = supplierName parsed,
                         totalAmount = totalAmount parsed \<rparr>
                  else invoiceData)))"

text \<open>An item of the response: the normalized name, and the original one beside it.\<close>

record normalized_medicine = "rat medicine" +
  original_name :: string

definition normalize_name :: "runtime \<Rightarrow> rat medicine \<Rightarrow> normalized_medicine" where
  "normalize_name rt item =
     \<lparr> medicine_name = normalizeMedicineName rt (medicine_name item),
       quantity = quantity item,
       batch_number = batch_number item,
       expiry_date = expiry_date item,
       mrp = mrp item,
       rate = rate item,
       original_name = medicine_name item \<rparr>"

text \<open>
  The uploaded file, and what the environment does with it: the pages that
  \<^verbatim>\<open>convertPdfToImages\<close> (not part of the sources at hand) makes of a PDF, or the
  message of the error it throws, and the environment of the one page an image file is.
\<close>

record upload =
  path :: string
  mimetype :: string

record import_env =
  convertPdfToImages :: "string + page_env list"
  image_page :: page_env

text \<open>
  The response of \<^verbatim>\<open>importBill\<close>: status 200 with the items and the invoice, or a
  status and a message.
\<close>

datatype import_response =
    ImportOk "normalized_medicine list" invoice_data
  | ImportFailed nat string

definition importBill :: "runtime \<Rightarrow> import_env \<Rightarrow> upload option \<Rightarrow> import_response" where
  "importBill rt env file =
     (case file of
        None \<Rightarrow> ImportFailed 400 ''No file uploaded''
      | Some f \<Rightarrow>
          (case (if mimetype f = ''application/pdf'' then convertPdfToImages env
                 else if take 6 (mimetype f) = ''image/'' then Inr [image_page env]
                 else Inl ''Unsupported file type'') of
             Inl msg \<Rightarrow> ImportFailed 500 msg
           | Inr tempImages \<Rightarrow>
               (case process_pages rt tempImages ([], empty_invoice) of
                  Inl msg \<Rightarrow> ImportFailed 500 msg
                | Inr (allItems, invoiceData) \<Rightarrow>
                    ImportOk (map (normalize_name rt) allItems) invoiceData)))"


section \<open>What a page contributes\<close>

text \<open>
  The bill \<^verbatim>\<open>parseBillText\<close> returns for a page whose text was read, and the four
  invoice fields of a bill, as the loop of \<^verbatim>\<open>importBill\<close> copies them.
\<close>

definition page_bill :: "runtime \<Rightarrow> page_env \<Rightarrow> ParsedBillData" where
  "page_bill rt page =
     (case extractTextFromImage page of
        Inl msg \<Rightarrow> no_items
      | Inr text \<Rightarrow> (case parseBillText rt (chat page) text of Inl e \<Rightarrow> no_items | Inr bill \<Rightarrow> bill))"

definition invoice_of :: "ParsedBillData \<Rightarrow> invoice_data" where
  "invoice_of bill =
     \<lparr> invoiceNumber = invoiceNumber bill, invoiceDate = invoiceDate bill,
       supplierName = supplierName bill, totalAmount = totalAmount bill \<rparr>"


section \<open>The confirm request as it arrives\<close>

text \<open>
  The body of a confirm request is parsed JSON, and the controller validates nothing in
  it but that \<^verbatim>\<open>items\<close> is an array: an item may be any JSON value, and so may each
  of its properties. This section follows \<^verbatim>\<open>confirmImport\<close> on such a body, with the
  TypeErrors its loop body throws on a value of the wrong kind. On an item of the shape of
  a bill line (\<open>item_shaped\<close> below) the loop body is \<open>reconcile_item\<close> above.
\<close>

text \<open>
  Whether a conversion of the value to a string or to a number returns. An object made
  by \<^verbatim>\<open>JSON.parse\<close> that has a property \<^verbatim>\<open>toString\<close> of its own hides the
  inherited method by a value that cannot be called, and the conversion throws a
  TypeError; an array converts its elements in turn.
\<close>

fun printable :: "jsval \<Rightarrow> bool" where
  "printable (JObj kvs) = (map_of kvs ''toString'' = None)"
| "printable (JArr xs) = list_all printable xs"
| "printable v = True"

text \<open>
  \<^verbatim>\<open>item.expiry_date ? parseExpiryDate(item.expiry_date) : undefined\<close>: a truthy
  value that is not a string has no method \<^verbatim>\<open>match\<close>, and the call throws.
\<close>

definition expiry_of :: "runtime \<Rightarrow> jsval \<Rightarrow> exn + js_date option" where
  "expiry_of rt v =
     (if truthy v then (case v of JStr dateStr \<Rightarrow> Inr (parseExpiryDate rt dateStr) | _ \<Rightarrow> Inl TypeError)
      else Inr None)"

text \<open>
  The values the loop body takes from the item before it queries the database
  (``parse all the values upfront'', and the log line, which prints the name and the
  batch number).
\<close>

record upfront =
  r_name :: jsval
  r_batch :: jsval
  r_mrp :: rat
  r_cost :: rat
  r_quantity :: rat
  r_expiry :: "js_date option"

definition read_item :: "runtime \<Rightarrow> jsval \<Rightarrow> exn + upfront" where
  "read_item rt item =
     (case get_prop item ''medicine_name'' of
        Inl err \<Rightarrow> Inl err
      | Inr name \<Rightarrow>
          (let batch = read_prop item ''batch_number'' in
           if \<not> (printable (read_prop item ''mrp'') \<and> printable (read_prop item ''rate'')
                 \<and> printable (read_prop item ''quantity''))
           then Inl TypeError
           else
             (case expiry_of rt (read_prop item ''expiry_date'') of
                Inl err \<Rightarrow> Inl err
              | Inr expiryValue \<Rightarrow>
                  if \<not> (printable name \<and> printable batch) then Inl TypeError
                  else Inr \<lparr> r_name = name, r_batch = batch,
                             r_mrp = or_0 (Number (read_prop item ''mrp'')),
                             r_cost = or_0 (Number (read_prop item ''rate'')),
                             r_quantity = or_0 (Number (read_prop item ''quantity'')),
                             r_expiry = expiryValue \<rparr>)))"

text \<open>
  A nullable string column as the controller reads it, and a value as the client takes
  it for such a column in \<^verbatim>\<open>data\<close>: a string, or \<^verbatim>\<open>undefined\<close> for no value;
  modelled from the spec, whose columns are typed: any other value is rejected (\<open>None\<close>),
  and the call throws.
\<close>

definition js_of_column :: "string option \<Rightarrow> jsval" where
  "js_of_column c = (case c of None \<Rightarrow> JNull | Some s \<Rightarrow> JStr s)"

definition column_value :: "jsval \<Rightarrow> string option option" where
  "column_value v = (case v of JUndefined \<Rightarrow> Some None | JStr s \<Rightarrow> Some (Some s) | _ \<Rightarrow> None)"

text \<open>
  \<^verbatim>\<open>generateSku(name, batch)\<close> on any two values: \<^verbatim>\<open>name.substring\<close> is a function
  for a string only, and so is \<^verbatim>\<open>batch.replace\<close>, which is called when
  \<^verbatim>\<open>batch\<close> is truthy.
\<close>

definition generateSku_json :: "item_env \<Rightarrow> jsval \<Rightarrow> jsval \<Rightarrow> exn + string" where
  "generateSku_json e name batch =
     (case name of
        JStr n \<Rightarrow>
          if truthy batch then (case batch of JStr b \<Rightarrow> Inr (generateSku e n b) | _ \<Rightarrow> Inl TypeError)
          else Inr (generateSku e n [])
      | _ \<Rightarrow> Inl TypeError)"

text \<open>
  The \<^verbatim>\<open>data\<close> of the update path; \<open>None\<close> when the client rejects it.
\<close>

definition update_of_json :: "product \<Rightarrow> upfront \<Rightarrow> jsval \<Rightarrow> update_data option" where
  "update_of_json exactBatchMatch v supplierValue =
     (let existingMrp = (case p_mrp exactBatchMatch of None \<Rightarrow> 0 | Some d \<Rightarrow> d);
          existingCostPrice = (case p_costPrice exactBatchMatch of None \<Rightarrow> 0 | Some d \<Rightarrow> d);
          existingSellingPrice = (case p_sellingPrice exactBatchMatch of None \<Rightarrow> 0 | Some d \<Rightarrow> d);
          existingQty = (if p_quantity exactBatchMatch \<noteq> 0 then p_quantity exactBatchMatch else 0)
      in case (column_value (or_js (js_of_column (p_batchNumber exactBatchMatch))
                               (or_js (r_batch v) JUndefined)),
               column_value (or_js (js_of_column (p_manufacturer exactBatchMatch))
                               (or_js supplierValue JUndefined))) of
           (Some batchNumber, Some manufacturer) \<Rightarrow>
             Some \<lparr> u_quantity = existingQty + r_quantity v,
                    u_mrp = (if existingMrp > 0 then existingMrp else r_mrp v),
                    u_costPrice = (if existingCostPrice > 0 then existingCostPrice else r_cost v),
                    u_sellingPrice = (if existingSellingPrice > 0 then existingSellingPrice else r_mrp v),
                    u_batchNumber = batchNumber,
                    u_expiryDate =
                      (case p_expiryDate exactBatchMatch of None \<Rightarrow> r_expiry v | Some x \<Rightarrow> Some x),
                    u_manufacturer = manufacturer \<rparr>
         | _ \<Rightarrow> None)"

text \<open>
  The \<^verbatim>\<open>data\<close> of the create path: \<^verbatim>\<open>generateSku\<close> may throw while it is built,
  and the client may reject it.
\<close>

definition create_of_json ::
  "item_env \<Rightarrow> string \<Rightarrow> product list \<Rightarrow> upfront \<Rightarrow> jsval \<Rightarrow> exn + product" where
  "create_of_json e storeId existingProducts v supplierValue =
     (let blueprint = (case existingProducts of [] \<Rightarrow> None | b # bs \<Rightarrow> Some b)
      in case generateSku_json e (r_name v) (r_batch v) of
           Inl err \<Rightarrow> Inl err
         | Inr sku \<Rightarrow>
             (case (column_value (r_name v), column_value (or_js (r_batch v) JUndefined),
                    column_value (or_js supplierValue JUndefined)) of
                (Some (Some name), Some batchNumber, Some manufacturer) \<Rightarrow>
                  Inr \<lparr> p_id = 0,
                        p_storeId = storeId,
                        p_name = name,
                        p_sku = sku,
                        p_quantity = r_quantity v,
                        p_batchNumber = batchNumber,
                        p_expiryDate = r_expiry v,
                        p_mrp = Some (r_mrp v),
                        p_costPrice = Some (r_cost v),
                        p_sellingPrice = Some (r_mrp v),
                        p_manufacturer = manufacturer,
                        p_category = (case blueprint of Some b \<Rightarrow> p_category b | None \<Rightarrow> ''MEDICINE''),
                        p_unit = (case blueprint of Some b \<Rightarrow> p_unit b | None \<Rightarrow> ''pcs''),
                        p_reorderLevel = (case blueprint of Some b \<Rightarrow> p_reorderLevel b | None \<Rightarrow> 10),
                        p_description = Some ''Imported from Supplier Bill'' \<rparr>
              | _ \<Rightarrow> Inl PersistenceError))"

text \<open>
  What \<^verbatim>\<open>findMany\<close> answers when the name it is given is not a string: the client's
  treatment of such a filter is not part of the sources at hand, and is a parameter.
\<close>

type_synonym name_query = "jsval \<Rightarrow> product list \<Rightarrow> product list option"

text \<open>
  The body of the loop on any item. The comparison \<^verbatim>\<open>p.batchNumber === batch\<close>
  holds for a stored string and the same string, and for \<^verbatim>\<open>null\<close> and \<^verbatim>\<open>null\<close>.
\<close>

definition reconcile_item_json ::
  "runtime \<Rightarrow> name_query \<Rightarrow> item_env \<Rightarrow> string \<Rightarrow> jsval \<Rightarrow> product list
     \<Rightarrow> (exn + tally) \<times> product list" where
  "reconcile_item_json rt other e storeId item db =
     (case read_item rt item of
        Inl err \<Rightarrow> (Inl err, db)
      | Inr v \<Rightarrow>
          (case (case r_name v of JStr name \<Rightarrow> findMany e storeId name db | _ \<Rightarrow> other (r_name v) db) of
             None \<Rightarrow> (Inl PersistenceError, db)
           | Some existingProducts \<Rightarrow>
               (case find (\<lambda>p. js_of_column (p_batchNumber p) = r_batch v) existingProducts of
                  Some exactBatchMatch \<Rightarrow>
                    (case update_of_json exactBatchMatch v (read_prop item ''supplier'') of
                       None \<Rightarrow> (Inl PersistenceError, db)
                     | Some d \<Rightarrow>
                         (case update e (p_id exactBatchMatch) d db of
                            None \<Rightarrow> (Inl PersistenceError, db)
                          | Some db' \<Rightarrow> (Inr Updated, db')))
                | None \<Rightarrow>
                    (case create_of_json e storeId existingProducts v (read_prop item ''supplier'') of
                       Inl err \<Rightarrow> (Inl err, db)
                     | Inr d \<Rightarrow>
                         (case create e d db of
                            None \<Rightarrow> (Inl PersistenceError, db)
                          | Some db' \<Rightarrow> (Inr Created, db'))))))"

fun reconcile_json ::
  "runtime \<Rightarrow> name_query \<Rightarrow> (nat \<Rightarrow> item_env) \<Rightarrow> string \<Rightarrow> nat \<Rightarrow> jsval list \<Rightarrow> nat \<times> nat
     \<Rightarrow> product list \<Rightarrow> (exn + nat \<times> nat) \<times> product list" where
  "reconcile_json rt other env storeId k [] (created, updated) db = (Inr (created, updated), db)"
| "reconcile_json rt other env storeId k (item # rest) (created, updated) db =
     (case reconcile_item_json rt other (env k) storeId item db of
        (Inl err, db') \<Rightarrow> (Inl err, db')
      | (Inr Created, db') \<Rightarrow> reconcile_json rt other env storeId (Suc k) rest (Suc created, updated) db'
      | (Inr Updated, db') \<Rightarrow> reconcile_json rt other env storeId (Suc k) rest (created, Suc updated) db')"

text \<open>
  \<^verbatim>\<open>confirmImport\<close> on the request's store id and its body: reading \<^verbatim>\<open>items\<close>
  off a body that is \<^verbatim>\<open>undefined\<close> throws inside the \<^verbatim>\<open>try\<close> block.
\<close>

definition confirmImport_json ::
  "runtime \<Rightarrow> name_query \<Rightarrow> (nat \<Rightarrow> item_env) \<Rightarrow> string option \<Rightarrow> jsval \<Rightarrow> product list
     \<Rightarrow> response \<times> product list" where
  "confirmImport_json rt other env storeId body db =
     (case get_prop body ''items'' of
        Inl err \<Rightarrow> (\<lparr> status = 500, success = False, message = ''Failed to save inventory'' \<rparr>, db)
      | Inr itemsValue \<Rightarrow>
          (case (storeId, itemsValue) of
             (Some sid, JArr its) \<Rightarrow>
               if sid = [] then (\<lparr> status = 400, success = False, message = ''Invalid request'' \<rparr>, db)
               else
                 (case reconcile_json rt other env sid 0 its (0, 0) db of
                    (Inr (created, updated), db') \<Rightarrow>
                      (\<lparr> status = 200, success = True, message = confirmed_message created updated \<rparr>, db')
                  | (Inl err, db') \<Rightarrow>
                      (\<lparr> status = 500, success = False, message = ''Failed to save inventory'' \<rparr>, db'))
           | _ \<Rightarrow> (\<lparr> status = 400, success = False, message = ''Invalid request'' \<rparr>, db)))"

text \<open>
  An item of the shape of a bill line: its name and its batch number are strings, its
  expiry date and its supplier are strings or falsy (absent, \<^verbatim>\<open>null\<close>, ...), and its
  three numeric properties are values whose conversion to a number returns. The value
  \<open>typed_item\<close> is that item as a bill line.
\<close>

definition is_string :: "jsval \<Rightarrow> bool" where
  "is_string v = (case v of JStr s \<Rightarrow> True | _ \<Rightarrow> False)"

definition string_of :: "jsval \<Rightarrow> string" where
  "string_of v = (case v of JStr s \<Rightarrow> s | _ \<Rightarrow> [])"

definition item_shaped :: "jsval \<Rightarrow> bool" where
  "item_shaped item =
     (is_string (read_prop item ''medicine_name'')
      \<and> is_string (read_prop item ''batch_number'')
      \<and> (is_string (read_prop item ''expiry_date'') \<or> \<not> truthy (read_prop item ''expiry_date''))
      \<and> (is_string (read_prop item ''supplier'') \<or> \<not> truthy (read_prop item ''supplier''))
      \<and> printable (read_prop item ''mrp'')
      \<and> printable (read_prop item ''rate'')
      \<and> printable (read_prop item ''quantity''))"

definition typed_item :: "jsval \<Rightarrow> jsval confirm_item" where
  "typed_item item =
     \<lparr> medicine_name = string_of (read_prop item ''medicine_name''),
       quantity = read_prop item ''quantity'',
       batch_number = string_of (read_prop item ''batch_number''),
       expiry_date = string_of (read_prop item ''expiry_date''),
       mrp = read_prop item ''mrp'',
       rate = read_prop item ''rate'',
       supplier = (case read_prop item ''supplier'' of JStr s \<Rightarrow> Some s | _ \<Rightarrow> None) \<rparr>"


section \<open>The stock of a batch\<close>

text \<open>
  The rows the reconciler takes for the batch \<open>b\<close> of the medicine \<open>n\<close> in a store, in
  the order of the database, and the quantity of the first of them (0 when there is
  none): the row the exact-batch-match step selects.
\<close>

definition batch_rows :: "string \<Rightarrow> string \<Rightarrow> string \<Rightarrow> product list \<Rightarrow> product list" where
  "batch_rows sid n b db =
     filter (\<lambda>p. p_storeId p = sid \<and> toLowerCase (p_name p) = toLowerCase n
                \<and> p_batchNumber p = Some b) db"

definition batch_stock :: "string \<Rightarrow> string \<Rightarrow> string \<Rightarrow> product list \<Rightarrow> rat" where
  "batch_stock sid n b db = (case batch_rows sid n b db of [] \<Rightarrow> 0 | m # ms \<Rightarrow> p_quantity m)"


section \<open>Sample data for the closed examples\<close>

text \<open>A runtime whose library functions know nothing: every parse fails.\<close>

definition bare_runtime :: runtime where
  "bare_runtime =
     \<lparr> JSON_parse = (\<lambda>s. None), Number_toString = (\<lambda>n. []),
       Date_parse = (\<lambda>s. None), normalizeMedicineName = (\<lambda>s. s) \<rparr>"

text \<open>An environment in which nothing fails, and one whose write fails at item \<open>n\<close>.\<close>

definition no_failure :: "nat \<Rightarrow> item_env" where
  "no_failure k = \<lparr> find_fails = False, write_fails = False, now = 1700000000000, random = 7 \<rparr>"

definition write_fails_at :: "nat \<Rightarrow> nat \<Rightarrow> item_env" where
  "write_fails_at n k = \<lparr> find_fails = False, write_fails = (k = n), now = 1700000000000, random = 7 \<rparr>"

text \<open>A stocked batch of store \<open>s1\<close>, without a cost price, and a bill line for it.\<close>

definition dolo_batch :: product where
  "dolo_batch =
     \<lparr> p_id = 1, p_storeId = ''s1'', p_name = ''Dolo 650'', p_sku = ''DOL-B1-7'',
       p_quantity = 10, p_batchNumber = Some ''B-1'', p_expiryDate = None,
       p_mrp = Some 30, p_costPrice = None, p_sellingPrice = Some 0,
       p_manufacturer = None, p_category = ''TABLET'', p_unit = ''strip'',
       p_reorderLevel = 5, p_description = None \<rparr>"

definition dolo_item :: "string \<Rightarrow> jsval \<Rightarrow> jsval confirm_item" where
  "dolo_item batch qty =
     \<lparr> medicine_name = ''DOLO 650'', quantity = qty, batch_number = batch,
       expiry_date = ''05/26'', mrp = JNum 35, rate = JNum 20, supplier = Some ''Acme'' \<rparr>"


text \<open>
  The same bill line as JSON, and a client that finds no row for a name that is not a
  string.
\<close>

definition dolo_json :: "string \<Rightarrow> jsval \<Rightarrow> jsval" where
  "dolo_json batch qty =
     JObj [(''medicine_name'', JStr ''DOLO 650''), (''quantity'', qty), (''batch_number'', JStr batch),
           (''expiry_date'', JStr ''05/26''), (''mrp'', JNum 35), (''rate'', JNum 20),
           (''supplier'', JStr ''Acme'')]"

definition finds_nothing :: name_query where
  "finds_nothing name db = Some []"

text \<open>
  A model reply: a fenced block around the JSON text of one item, and a runtime whose
  \<^verbatim>\<open>JSON.parse\<close> knows that text.
\<close>

definition sample_json :: string where
  "sample_json = ''{\"items\":[{\"medicine_name\":\"X\",\"quantity\":\"10\",\"mrp\":\"50\"}]}''"

definition sample_reply :: string where
  "sample_reply = fence @ ''json'' @ [CHR 0x0A] @ sample_json @ [CHR 0x0A] @ fence"

text \<open>The JSON texts of three pages; only the second and the third have an invoice number.\<close>

definition page_one_json :: string where
  "page_one_json = ''{\"supplierName\":\"Early\",\"items\":[{\"medicine_name\":\"A\",\"quantity\":1}]}''"

definition page_two_json :: string where
  "page_two_json = ''{\"invoiceNumber\":\"INV-2\",\"items\":[{\"medicine_name\":\"B\",\"quantity\":2}]}''"

definition page_three_json :: string where
  "page_three_json =
     ''{\"invoiceNumber\":\"INV-3\",\"supplierName\":\"Late\",\"items\":[{\"medicine_name\":\"C\",\"quantity\":3}]}''"

definition sample_runtime :: runtime where
  "sample_runtime =
     \<lparr> JSON_parse = map_of
         [(sample_json,
             JObj [(''items'',
                JArr [JObj [(''medicine_name'', JStr ''X''), (''quantity'', JStr ''10''),
                            (''mrp'', JStr ''50'')]])]),
          (page_one_json,
             JObj [(''supplierName'', JStr ''Early''),
                   (''items'', JArr [JObj [(''medicine_name'', JStr ''A''), (''quantity'', JNum 1)]])]),
          (page_two_json,
             JObj [(''invoiceNumber'', JStr ''INV-2''),
                   (''items'', JArr [JObj [(''medicine_name'', JStr ''B''), (''quantity'', JNum 2)]])]),
          (page_three_json,
             JObj [(''invoiceNumber'', JStr ''INV-3''), (''supplierName'', JStr ''Late''),
                   (''items'', JArr [JObj [(''medicine_name'', JStr ''C''), (''quantity'', JNum 3)]])])],
       Number_toString = (\<lambda>n. []),
       Date_parse = (\<lambda>s. None),
       normalizeMedicineName = (\<lambda>s. s) \<rparr>"

text \<open>A page whose text is read and whose parsing request gets the given reply.\<close>

definition page_replying :: "string \<Rightarrow> page_env" where
  "page_replying reply =
     \<lparr> read_error = None, vision = VisionContent (Some ''invoice text''),
       chat = (\<lambda>text. Content (Some reply)) \<rparr>"

definition three_pages :: import_env where
  "three_pages =
     \<lparr> convertPdfToImages =
         Inr [page_replying page_one_json, page_replying page_two_json,
              page_replying page_three_json],
       image_page = page_replying page_one_json \<rparr>"

text \<open>A document of two pages: the first and the third of the pages above.\<close>

definition early_late_pages :: import_env where
  "early_late_pages =
     \<lparr> convertPdfToImages = Inr [page_replying page_one_json, page_replying page_three_json],
       image_page = page_replying page_one_json \<rparr>"

section \<open>Properties of the reconciliation\<close>

subsection \<open>The steps of the loop body\<close>

lemma findMany_Some:
  "\<not> find_fails e \<Longrightarrow>
   findMany e sid n db =
     Some (filter (\<lambda>p. p_storeId p = sid \<and> toLowerCase (p_name p) = toLowerCase n) db)"
  by (simp add: findMany_def)

lemma findMany_None: "find_fails e \<Longrightarrow> findMany e sid n db = None"
  by (simp add: findMany_def)

lemma findMany_subset: "findMany e sid n db = Some fam \<Longrightarrow> set fam \<subseteq> set db"
  by (auto simp: findMany_def split: if_splits)

lemma findMany_member:
  "findMany e sid n db = Some fam \<Longrightarrow>
   p \<in> set fam \<longleftrightarrow> p \<in> set db \<and> p_storeId p = sid \<and> toLowerCase (p_name p) = toLowerCase n"
  by (auto simp: findMany_def split: if_splits)

lemma exact_batch_match_SomeD:
  "exact_batch_match fam b = Some m \<Longrightarrow> m \<in> set fam \<and> p_batchNumber m = Some b"
  unfolding exact_batch_match_def by (auto simp: find_Some_iff)

lemma exact_batch_match_None_iff:
  "exact_batch_match fam b = None \<longleftrightarrow> (\<forall>p \<in> set fam. p_batchNumber p \<noteq> Some b)"
  unfolding exact_batch_match_def by (auto simp: find_None_iff)

text \<open>
  What the exact-batch-match step selects: a row of the same store whose name equals the
  item's name case-insensitively and whose stored batch number is the item's batch
  number, and it finds one whenever there is one.
\<close>

lemma exact_batch_match_selects:
  assumes "findMany e sid n db = Some family"
  shows "exact_batch_match family b = Some m \<Longrightarrow>
           m \<in> set db \<and> p_storeId m = sid \<and> toLowerCase (p_name m) = toLowerCase n
           \<and> p_batchNumber m = Some b"
    and "(\<exists>m. exact_batch_match family b = Some m) \<longleftrightarrow>
           (\<exists>p \<in> set db. p_storeId p = sid \<and> toLowerCase (p_name p) = toLowerCase n
              \<and> p_batchNumber p = Some b)"
proof -
  show "exact_batch_match family b = Some m \<Longrightarrow>
           m \<in> set db \<and> p_storeId m = sid \<and> toLowerCase (p_name m) = toLowerCase n
           \<and> p_batchNumber m = Some b"
    using exact_batch_match_SomeD [of family b m] findMany_member [OF assms, of m] by blast
  have "(exact_batch_match family b = None) \<longleftrightarrow>
      \<not> (\<exists>p \<in> set db. p_storeId p = sid \<and> toLowerCase (p_name p) = toLowerCase n
              \<and> p_batchNumber p = Some b)"
    using findMany_member [OF assms] by (auto simp: exact_batch_match_None_iff)
  then show "(\<exists>m. exact_batch_match family b = Some m) \<longleftrightarrow>
           (\<exists>p \<in> set db. p_storeId p = sid \<and> toLowerCase (p_name p) = toLowerCase n
              \<and> p_batchNumber p = Some b)"
    by (cases "exact_batch_match family b") auto
qed

lemma reconcile_item_fails:
  "find_fails e \<or> write_fails e \<Longrightarrow> reconcile_item rt e sid item db = (Inl PersistenceError, db)"
  by (auto simp: reconcile_item_def findMany_def update_def create_def split: option.splits)

lemma reconcile_item_update:
  assumes "findMany e sid (medicine_name item) db = Some fam"
    and "exact_batch_match fam (batch_number item) = Some m"
    and "\<not> write_fails e"
  shows "reconcile_item rt e sid item db =
           (Inr Updated, map (\<lambda>p. if p_id p = p_id m then apply_update (update_of rt m item) p else p) db)"
proof -
  have "m \<in> set db"
    using assms(1,2) findMany_subset exact_batch_match_SomeD by blast
  then have "p_id m \<in> p_id ` set db" by simp
  then show ?thesis
    using assms by (simp add: reconcile_item_def update_def)
qed

lemma reconcile_item_create:
  assumes "findMany e sid (medicine_name item) db = Some fam"
    and "exact_batch_match fam (batch_number item) = None"
    and "\<not> write_fails e"
  shows "reconcile_item rt e sid item db =
           (Inr Created, db @ [(create_of rt e sid fam item) \<lparr> p_id := fresh_id db \<rparr>])"
  using assms by (simp add: reconcile_item_def create_def)

lemma reconcile_item_ok:
  assumes "\<not> find_fails e" "\<not> write_fails e"
  shows "\<exists>t db'. reconcile_item rt e sid item db = (Inr t, db')"
proof -
  obtain fam where f: "findMany e sid (medicine_name item) db = Some fam"
    using assms(1) by (simp add: findMany_def)
  show ?thesis
  proof (cases "exact_batch_match fam (batch_number item)")
    case None
    then show ?thesis using reconcile_item_create [OF f None assms(2)] by blast
  next
    case (Some m)
    then show ?thesis using reconcile_item_update [OF f Some assms(2)] by blast
  qed
qed

lemma reconcile_counts:
  "\<forall>j < length its. \<not> find_fails (env (k + j)) \<and> \<not> write_fails (env (k + j)) \<Longrightarrow>
   \<exists>c' u' db'. reconcile rt env sid k its (c, u) db = (Inr (c', u'), db')
      \<and> c' + u' = c + u + length its"
proof (induction its arbitrary: k c u db)
  case Nil
  then show ?case by simp
next
  case (Cons item its)
  have ok: "\<not> find_fails (env k)" "\<not> write_fails (env k)"
    using Cons.prems by force+
  then obtain t db1 where step: "reconcile_item rt (env k) sid item db = (Inr t, db1)"
    using reconcile_item_ok by blast
  have rest: "\<forall>j < length its. \<not> find_fails (env (Suc k + j)) \<and> \<not> write_fails (env (Suc k + j))"
    using Cons.prems by force
  show ?case
  proof (cases t)
    case Created
    obtain c' u' db' where
      "reconcile rt env sid (Suc k) its (Suc c, u) db1 = (Inr (c', u'), db')"
      "c' + u' = Suc c + u + length its"
      using Cons.IH [OF rest] by blast
    then show ?thesis using step Created by simp
  next
    case Updated
    obtain c' u' db' where
      "reconcile rt env sid (Suc k) its (c, Suc u) db1 = (Inr (c', u'), db')"
      "c' + u' = c + Suc u + length its"
      using Cons.IH [OF rest] by blast
    then show ?thesis using step Updated by simp
  qed
qed

lemma reconcile_append:
  "reconcile rt env sid k xs cu db = (Inr cu', db') \<Longrightarrow>
   reconcile rt env sid k (xs @ ys) cu db = reconcile rt env sid (k + length xs) ys cu' db'"
proof (induction xs arbitrary: k cu db)
  case Nil
  then show ?case by (cases cu) simp
next
  case (Cons x xs)
  obtain c u where cu: "cu = (c, u)" by (cases cu)
  obtain r db1 where step: "reconcile_item rt (env k) sid x db = (r, db1)"
    by (cases "reconcile_item rt (env k) sid x db")
  show ?case
  proof (cases r)
    case (Inl err)
    then show ?thesis using Cons.prems step cu by simp
  next
    case (Inr t)
    then show ?thesis
      using Cons.prems step cu Cons.IH [of "Suc k" _ db1]
      by (cases t) simp_all
  qed
qed

lemma reconcile_failing_head:
  "find_fails (env k) \<or> write_fails (env k) \<Longrightarrow>
   reconcile rt env sid k (item # its) cu db = (Inl PersistenceError, db)"
  by (cases cu) (simp add: reconcile_item_fails)

subsection \<open>The tallies and the failure of a write\<close>

text \<open>
  On bill lines: when no query and no write fails, every item increments exactly one of
  the two tallies, and the two counts of the confirmation add up to the number of items.
\<close>

lemma confirmImport_counts_bill_lines:
  assumes "sid \<noteq> []"
    and "\<forall>k < length its. \<not> find_fails (env k) \<and> \<not> write_fails (env k)"
  shows "\<exists>created updated db'.
           confirmImport rt env (Some sid) (Some its) db =
             (\<lparr> status = 200, success = True, message = confirmed_message created updated \<rparr>, db')
           \<and> created + updated = length its"
proof -
  have "\<forall>j < length its. \<not> find_fails (env (0 + j)) \<and> \<not> write_fails (env (0 + j))"
    using assms(2) by simp
  then obtain c u db' where
    "reconcile rt env sid 0 its (0, 0) db = (Inr (c, u), db')" "c + u = 0 + 0 + length its"
    using reconcile_counts [of its env 0 rt sid 0 0 db] by blast
  then show ?thesis
    using assms(1) by (auto simp: confirmImport_def)
qed

text \<open>
  C8, as amended. When the query or the write of item \<open>k\<close> fails and those of the items
  before it do not, the remaining items are not processed and nothing is rolled back:
  the database is left as a successful import of the first \<open>k\<close> items alone leaves it, and
  the response is status 500 with \<^verbatim>\<open>success: false\<close> and the fixed message
  \<^verbatim>\<open>Failed to save inventory\<close>, which carries no count and names no item.
\<close>

theorem confirmImport_failure_keeps_earlier_writes:
  assumes "sid \<noteq> []"
    and "k < length its"
    and "\<forall>j < k. \<not> find_fails (env j) \<and> \<not> write_fails (env j)"
    and "find_fails (env k) \<or> write_fails (env k)"
  shows "\<exists>created updated db_k.
           confirmImport rt env (Some sid) (Some (take k its)) db =
             (\<lparr> status = 200, success = True, message = confirmed_message created updated \<rparr>, db_k)
           \<and> created + updated = k
           \<and> confirmImport rt env (Some sid) (Some its) db =
             (\<lparr> status = 500, success = False, message = ''Failed to save inventory'' \<rparr>, db_k)"
proof -
  have len: "length (take k its) = k"
    using assms(2) by simp
  have "\<forall>j < length (take k its). \<not> find_fails (env (0 + j)) \<and> \<not> write_fails (env (0 + j))"
    using assms(3) by simp
  then obtain c u db_k where
    pre: "reconcile rt env sid 0 (take k its) (0, 0) db = (Inr (c, u), db_k)"
    and cnt: "c + u = 0 + 0 + length (take k its)"
    using reconcile_counts [of "take k its" env 0 rt sid 0 0 db] by blast
  obtain item rest where suffix: "drop k its = item # rest"
    using assms(2) by (cases "drop k its") simp_all
  have split: "its = take k its @ item # rest"
    using suffix by (metis append_take_drop_id)
  have "reconcile rt env sid 0 (take k its @ item # rest) (0, 0) db =
          reconcile rt env sid k (item # rest) (c, u) db_k"
    using reconcile_append [OF pre, of "item # rest"] len by (simp del: reconcile.simps)
  also have "\<dots> = (Inl PersistenceError, db_k)"
    by (rule reconcile_failing_head) (rule assms(4))
  finally have "reconcile rt env sid 0 (take k its @ item # rest) (0, 0) db =
      (Inl PersistenceError, db_k)" .
  then have "reconcile rt env sid 0 its (0, 0) db = (Inl PersistenceError, db_k)"
    using split by metis
  then show ?thesis
    using pre cnt len assms(1) by (auto simp: confirmImport_def)
qed

subsection \<open>Requests whose items are bill lines\<close>

lemma get_prop_string:
  "is_string (read_prop item k) \<Longrightarrow> get_prop item k = Inr (read_prop item k)"
  by (cases item) (simp_all add: read_prop_def is_string_def)

lemma is_stringE:
  assumes "is_string v"
  obtains s where "v = JStr s"
  using assms by (cases v) (simp_all add: is_string_def)

lemma expiry_of_shaped:
  assumes "is_string v \<or> \<not> truthy v"
  shows "expiry_of rt v = Inr (if string_of v \<noteq> [] then parseExpiryDate rt (string_of v) else None)"
  using assms by (cases v) (auto simp: expiry_of_def string_of_def is_string_def)

lemma column_value_supplier:
  assumes "is_string v \<or> \<not> truthy v"
  shows "column_value (or_js v JUndefined) =
     Some (case (case v of JStr s \<Rightarrow> Some s | _ \<Rightarrow> None) of None \<Rightarrow> None | Some s \<Rightarrow> or_undefined s)"
  using assms by (cases v) (auto simp: or_js_def column_value_def or_undefined_def is_string_def)

lemma column_value_or_column:
  assumes "column_value w = Some x"
  shows "column_value (or_js (js_of_column c) w) = Some (or_str c x)"
  using assms by (cases c) (auto simp: or_js_def js_of_column_def column_value_def or_str_def)

lemma column_value_batch:
  "column_value (or_js (JStr b) JUndefined) = Some (or_undefined b)"
  by (simp add: or_js_def column_value_def or_undefined_def)

lemma read_item_shaped:
  assumes "item_shaped item"
  shows "read_item rt item =
     Inr \<lparr> r_name = JStr (medicine_name (typed_item item)),
           r_batch = JStr (batch_number (typed_item item)),
           r_mrp = or_0 (Number (mrp (typed_item item))),
           r_cost = or_0 (Number (rate (typed_item item))),
           r_quantity = or_0 (Number (quantity (typed_item item))),
           r_expiry = (if expiry_date (typed_item item) \<noteq> []
                       then parseExpiryDate rt (expiry_date (typed_item item)) else None) \<rparr>"
proof -
  obtain n where n: "read_prop item ''medicine_name'' = JStr n"
    using assms by (auto simp: item_shaped_def elim: is_stringE)
  obtain b where b: "read_prop item ''batch_number'' = JStr b"
    using assms by (auto simp: item_shaped_def elim: is_stringE)
  have name: "get_prop item ''medicine_name'' = Inr (JStr n)"
    using get_prop_string [of item "''medicine_name''"] n by (simp add: is_string_def)
  have expiry: "expiry_of rt (read_prop item ''expiry_date'') =
      Inr (if string_of (read_prop item ''expiry_date'') \<noteq> []
           then parseExpiryDate rt (string_of (read_prop item ''expiry_date'')) else None)"
    using assms by (intro expiry_of_shaped) (simp add: item_shaped_def)
  have nums: "printable (read_prop item ''mrp'')" "printable (read_prop item ''rate'')"
    "printable (read_prop item ''quantity'')"
    using assms by (simp_all add: item_shaped_def)
  show ?thesis
    unfolding read_item_def name
    by (simp add: Let_def nums expiry n b typed_item_def string_of_def)
qed

lemma find_batch_string:
  "find (\<lambda>p. js_of_column (p_batchNumber p) = JStr b) fam = exact_batch_match fam b"
proof -
  have "(js_of_column c = JStr b) = (c = Some b)" for c
    by (cases c) (simp_all add: js_of_column_def)
  then show ?thesis
    by (simp add: exact_batch_match_def)
qed

lemma update_of_json_shaped:
  assumes "item_shaped item" and "read_item rt item = Inr v"
    and "p_batchNumber m = Some (batch_number (typed_item item))"
  shows "update_of_json m v (read_prop item ''supplier'') = Some (update_of rt m (typed_item item))"
proof -
  have v: "v = \<lparr> r_name = JStr (medicine_name (typed_item item)),
           r_batch = JStr (batch_number (typed_item item)),
           r_mrp = or_0 (Number (mrp (typed_item item))),
           r_cost = or_0 (Number (rate (typed_item item))),
           r_quantity = or_0 (Number (quantity (typed_item item))),
           r_expiry = (if expiry_date (typed_item item) \<noteq> []
                       then parseExpiryDate rt (expiry_date (typed_item item)) else None) \<rparr>"
    using read_item_shaped [OF assms(1), of rt] assms(2) by simp
  have sup: "column_value (or_js (read_prop item ''supplier'') JUndefined) =
      Some (case supplier (typed_item item) of None \<Rightarrow> None | Some s \<Rightarrow> or_undefined s)"
    using column_value_supplier [of "read_prop item ''supplier''"] assms(1)
    by (simp add: item_shaped_def typed_item_def)
  have man: "column_value (or_js (js_of_column (p_manufacturer m))
        (or_js (read_prop item ''supplier'') JUndefined)) =
      Some (or_str (p_manufacturer m)
              (case supplier (typed_item item) of None \<Rightarrow> None | Some s \<Rightarrow> or_undefined s))"
    using column_value_or_column [OF sup] .
  have bat: "column_value (or_js (js_of_column (p_batchNumber m))
        (or_js (JStr (batch_number (typed_item item))) JUndefined)) =
      Some (or_str (p_batchNumber m) (or_undefined (batch_number (typed_item item))))"
    using column_value_or_column [OF column_value_batch] .
  show ?thesis
    unfolding update_of_json_def update_of_def v
    by (simp add: Let_def man bat split: option.split)
qed

lemma create_of_json_shaped:
  assumes "item_shaped item" and "read_item rt item = Inr v"
  shows "create_of_json e sid fam v (read_prop item ''supplier'') = Inr (create_of rt e sid fam (typed_item item))"
proof -
  have v: "v = \<lparr> r_name = JStr (medicine_name (typed_item item)),
           r_batch = JStr (batch_number (typed_item item)),
           r_mrp = or_0 (Number (mrp (typed_item item))),
           r_cost = or_0 (Number (rate (typed_item item))),
           r_quantity = or_0 (Number (quantity (typed_item item))),
           r_expiry = (if expiry_date (typed_item item) \<noteq> []
                       then parseExpiryDate rt (expiry_date (typed_item item)) else None) \<rparr>"
    using read_item_shaped [OF assms(1), of rt] assms(2) by simp
  have sup: "column_value (or_js (read_prop item ''supplier'') JUndefined) =
      Some (case supplier (typed_item item) of None \<Rightarrow> None | Some s \<Rightarrow> or_undefined s)"
    using column_value_supplier [of "read_prop item ''supplier''"] assms(1)
    by (simp add: item_shaped_def typed_item_def)
  have sku: "generateSku_json e (JStr n) (JStr b) = Inr (generateSku e n b)" for n b
    by (simp add: generateSku_json_def)
  have name: "column_value (JStr n) = Some (Some n)" for n
    by (simp add: column_value_def)
  show ?thesis
    unfolding create_of_json_def create_of_def v
    by (simp add: Let_def sup sku name column_value_batch)
qed

text \<open>
  On an item of the shape of a bill line, the loop body on the JSON value is the loop
  body on the bill line.
\<close>

lemma reconcile_item_json_shaped:
  assumes "item_shaped item"
  shows "reconcile_item_json rt other e sid item db = reconcile_item rt e sid (typed_item item) db"
proof -
  let ?t = "typed_item item"
  obtain v where v: "read_item rt item = Inr v"
    and name: "r_name v = JStr (medicine_name ?t)" and batch: "r_batch v = JStr (batch_number ?t)"
    using read_item_shaped [OF assms, of rt] by simp
  show ?thesis
  proof (cases "findMany e sid (medicine_name ?t) db")
    case None
    then show ?thesis
      by (simp add: reconcile_item_json_def reconcile_item_def v name)
  next
    case (Some fam)
    show ?thesis
    proof (cases "exact_batch_match fam (batch_number ?t)")
      case None
      then show ?thesis
        using Some create_of_json_shaped [OF assms v, of e sid fam]
        by (simp add: reconcile_item_json_def reconcile_item_def v name batch find_batch_string)
    next
      case (Some m)
      then have "p_batchNumber m = Some (batch_number ?t)"
        using exact_batch_match_SomeD by blast
      then show ?thesis
        using Some \<open>findMany e sid (medicine_name ?t) db = Some fam\<close>
          update_of_json_shaped [OF assms v, of m]
        by (simp add: reconcile_item_json_def reconcile_item_def v name batch find_batch_string)
    qed
  qed
qed

lemma reconcile_json_shaped:
  "\<forall>item \<in> set its. item_shaped item \<Longrightarrow>
   reconcile_json rt other env sid k its cu db = reconcile rt env sid k (map typed_item its) cu db"
proof (induction its arbitrary: k cu db)
  case Nil
  then show ?case by (cases cu) simp
next
  case (Cons item its)
  obtain c u where cu: "cu = (c, u)" by (cases cu)
  have head: "reconcile_item_json rt other (env k) sid item db =
      reconcile_item rt (env k) sid (typed_item item) db"
    using Cons.prems by (intro reconcile_item_json_shaped) simp
  have rest: "\<forall>item \<in> set its. item_shaped item"
    using Cons.prems by simp
  show ?case
    unfolding cu by (simp add: head Cons.IH [OF rest] split: prod.split sum.split tally.split)
qed

text \<open>
  A request whose items all have the shape of bill lines gets the response, and leaves
  the database, of \<open>confirmImport\<close> on those bill lines.
\<close>

lemma confirmImport_json_shaped:
  assumes "get_prop body ''items'' = Inr (JArr its)"
    and "\<forall>item \<in> set its. item_shaped item"
  shows "confirmImport_json rt other env storeId body db =
     confirmImport rt env storeId (Some (map typed_item its)) db"
  using assms(1) reconcile_json_shaped [OF assms(2)]
  by (simp add: confirmImport_json_def confirmImport_def split: option.split)

text \<open>
  C10, as amended. For a request with a store id and an array of items that all have
  the shape of bill lines (name and batch number strings, expiry date and supplier
  strings or falsy, numeric properties that convert to numbers), when no query and no
  write fails, every item increments exactly one of the two tallies: the response is the
  confirmation whose two counts add up to the number of items.
\<close>

theorem confirmImport_json_counts_every_item:
  assumes "sid \<noteq> []"
    and "get_prop body ''items'' = Inr (JArr its)"
    and "\<forall>item \<in> set its. item_shaped item"
    and "\<forall>k < length its. \<not> find_fails (env k) \<and> \<not> write_fails (env k)"
  shows "\<exists>created updated db'.
           confirmImport_json rt other env (Some sid) body db =
             (\<lparr> status = 200, success = True, message = confirmed_message created updated \<rparr>, db')
           \<and> created + updated = length its"
proof -
  have "\<forall>j < length (map typed_item its).
      \<not> find_fails (env (0 + j)) \<and> \<not> write_fails (env (0 + j))"
    using assms(4) by simp
  then obtain c u db' where
    run: "reconcile rt env sid 0 (map typed_item its) (0, 0) db = (Inr (c, u), db')"
    and count: "c + u = 0 + 0 + length (map typed_item its)"
    using reconcile_counts [of "map typed_item its" env 0 rt sid 0 0 db] by blast
  have "confirmImport_json rt other env (Some sid) body db =
      (\<lparr> status = 200, success = True, message = confirmed_message c u \<rparr>, db')"
    unfolding confirmImport_json_shaped [OF assms(2,3)]
    using run assms(1) by (simp add: confirmImport_def)
  then show ?thesis
    using count by auto
qed

theorem confirmImport_json_counts_every_item_witness:
  "\<exists>created updated db'.
     confirmImport_json bare_runtime finds_nothing no_failure (Some ''s1'')
       (JObj [(''items'', JArr [dolo_json ''B-1'' (JNum 5), dolo_json ''B-2'' (JStr ''7'')])])
       [dolo_batch] =
       (\<lparr> status = 200, success = True, message = confirmed_message created updated \<rparr>, db')
     \<and> created + updated = 2"
proof -
  have sid: "''s1'' \<noteq> []"
    by simp
  have body: "get_prop (JObj [(''items'', JArr [dolo_json ''B-1'' (JNum 5), dolo_json ''B-2'' (JStr ''7'')])])
      ''items'' = Inr (JArr [dolo_json ''B-1'' (JNum 5), dolo_json ''B-2'' (JStr ''7'')])"
    by simp
  have shaped: "\<forall>item \<in> set [dolo_json ''B-1'' (JNum 5), dolo_json ''B-2'' (JStr ''7'')]. item_shaped item"
    by (simp add: item_shaped_def dolo_json_def read_prop_def is_string_def)
  have ok: "\<forall>k < length [dolo_json ''B-1'' (JNum 5), dolo_json ''B-2'' (JStr ''7'')].
      \<not> find_fails (no_failure k) \<and> \<not> write_fails (no_failure k)"
    by (simp add: no_failure_def)
  from confirmImport_json_counts_every_item
    [OF sid body shaped ok, of bare_runtime finds_nothing "[dolo_batch]"]
  obtain c u db' where
    "confirmImport_json bare_runtime finds_nothing no_failure (Some ''s1'')
       (JObj [(''items'', JArr [dolo_json ''B-1'' (JNum 5), dolo_json ''B-2'' (JStr ''7'')])])
       [dolo_batch] =
       (\<lparr> status = 200, success = True, message = confirmed_message c u \<rparr>, db')"
    "c + u = length [dolo_json ''B-1'' (JNum 5), dolo_json ''B-2'' (JStr ''7'')]"
    by blast
  then show ?thesis
    by (intro exI [of _ c] exI [of _ u] exI [of _ db']) simp
qed

text \<open>
  C10 as stated does not hold: an array of items passes the check of the request, but
  the loop body throws a TypeError on an item that is not a bill line, and the request
  is answered with status 500 and no tallies although no query and no write has failed.
  So it is for the item \<^verbatim>\<open>null\<close>, whose name cannot be read, for the item
  \<^verbatim>\<open>{}\<close>, whose absent name has no \<^verbatim>\<open>substring\<close>, and for an item whose
  expiry date is the number 526, which has no \<^verbatim>\<open>match\<close>.
\<close>

theorem malformed_item_fails_without_persistence_failure:
  "\<not> find_fails (no_failure 0) \<and> \<not> write_fails (no_failure 0)
   \<and> confirmImport_json bare_runtime finds_nothing no_failure (Some ''s1'')
         (JObj [(''items'', JArr [JNull])]) [dolo_batch] =
       (\<lparr> status = 500, success = False, message = ''Failed to save inventory'' \<rparr>, [dolo_batch])
   \<and> confirmImport_json bare_runtime finds_nothing no_failure (Some ''s1'')
         (JObj [(''items'', JArr [JObj []])]) [dolo_batch] =
       (\<lparr> status = 500, success = False, message = ''Failed to save inventory'' \<rparr>, [dolo_batch])
   \<and> confirmImport_json bare_runtime finds_nothing no_failure (Some ''s1'')
         (JObj [(''items'',
            JArr [JObj [(''medicine_name'', JStr ''DOLO 650''), (''batch_number'', JStr ''B-1''),
                        (''quantity'', JNum 5), (''expiry_date'', JNum 526)]])]) [dolo_batch] =
       (\<lparr> status = 500, success = False, message = ''Failed to save inventory'' \<rparr>, [dolo_batch])"
  by (simp add: confirmImport_json_def reconcile_item_json_def read_item_def read_prop_def
      expiry_of_def create_of_json_def generateSku_json_def finds_nothing_def no_failure_def)

subsection \<open>The update path\<close>





lemma update_of_quantity:
  "u_quantity (update_of rt m item) = p_quantity m + or_0 (Number (quantity item))"
  by (simp add: update_of_def Let_def)


subsection \<open>The create path\<close>

lemma create_of_fields:
  "p_storeId (create_of rt e sid fam item) = sid"
  "p_name (create_of rt e sid fam item) = medicine_name item"
  "p_quantity (create_of rt e sid fam item) = or_0 (Number (quantity item))"
  "p_batchNumber (create_of rt e sid fam item) = or_undefined (batch_number item)"
  "p_expiryDate (create_of rt e sid fam item) =
     (if expiry_date item \<noteq> [] then parseExpiryDate rt (expiry_date item) else None)"
  "p_mrp (create_of rt e sid fam item) = Some (or_0 (Number (mrp item)))"
  "p_costPrice (create_of rt e sid fam item) = Some (or_0 (Number (rate item)))"
  "p_sellingPrice (create_of rt e sid fam item) = Some (or_0 (Number (mrp item)))"
  "p_manufacturer (create_of rt e sid fam item) =
     (case supplier item of None \<Rightarrow> None | Some s \<Rightarrow> or_undefined s)"
  by (simp_all add: create_of_def Let_def)

lemma create_of_blueprint:
  "p_category (create_of rt e sid fam item) = (case fam of [] \<Rightarrow> ''MEDICINE'' | b # bs \<Rightarrow> p_category b)"
  "p_unit (create_of rt e sid fam item) = (case fam of [] \<Rightarrow> ''pcs'' | b # bs \<Rightarrow> p_unit b)"
  "p_reorderLevel (create_of rt e sid fam item) = (case fam of [] \<Rightarrow> 10 | b # bs \<Rightarrow> p_reorderLevel b)"
  by (simp_all add: create_of_def Let_def split: list.split)

text \<open>
  C4. An item with no exact batch match creates one row, added to the database: it has
  the item's name, quantity, batch number (an empty one is stored as absent), parsed
  expiry date and mrp, the item's rate as cost price, the item's mrp as selling price,
  the supplier as manufacturer, and the category, unit and reorder level of an existing
  row of the same store and case-insensitive name when there is one, else
  \<^verbatim>\<open>MEDICINE\<close>, \<^verbatim>\<open>pcs\<close> and 10.
\<close>

theorem create_path_new_batch:
  assumes "findMany e sid (medicine_name item) db = Some family"
    and "exact_batch_match family (batch_number item) = None"
    and "\<not> write_fails e"
  shows "\<exists>row. reconcile_item rt e sid item db = (Inr Created, db @ [row])
     \<and> p_storeId row = sid
     \<and> p_name row = medicine_name item
     \<and> p_quantity row = or_0 (Number (quantity item))
     \<and> p_batchNumber row = (if batch_number item = [] then None else Some (batch_number item))
     \<and> p_expiryDate row =
          (if expiry_date item = [] then None else parseExpiryDate rt (expiry_date item))
     \<and> p_mrp row = Some (or_0 (Number (mrp item)))
     \<and> p_costPrice row = Some (or_0 (Number (rate item)))
     \<and> p_sellingPrice row = Some (or_0 (Number (mrp item)))
     \<and> p_manufacturer row =
          (case supplier item of None \<Rightarrow> None | Some s \<Rightarrow> if s = [] then None else Some s)
     \<and> (if \<exists>b \<in> set db. p_storeId b = sid
                \<and> toLowerCase (p_name b) = toLowerCase (medicine_name item)
         then \<exists>b \<in> set db. p_storeId b = sid
                \<and> toLowerCase (p_name b) = toLowerCase (medicine_name item)
                \<and> p_category row = p_category b \<and> p_unit row = p_unit b
                \<and> p_reorderLevel row = p_reorderLevel b
         else p_category row = ''MEDICINE'' \<and> p_unit row = ''pcs'' \<and> p_reorderLevel row = 10)"
proof -
  let ?row = "(create_of rt e sid family item) \<lparr> p_id := fresh_id db \<rparr>"
  have step: "reconcile_item rt e sid item db = (Inr Created, db @ [?row])"
    using reconcile_item_create [OF assms] .
  have mem: "b \<in> set family \<longleftrightarrow>
      b \<in> set db \<and> p_storeId b = sid \<and> toLowerCase (p_name b) = toLowerCase (medicine_name item)" for b
    using findMany_member [OF assms(1)] .
  have blueprint:
    "if \<exists>b \<in> set db. p_storeId b = sid \<and> toLowerCase (p_name b) = toLowerCase (medicine_name item)
     then \<exists>b \<in> set db. p_storeId b = sid
            \<and> toLowerCase (p_name b) = toLowerCase (medicine_name item)
            \<and> p_category ?row = p_category b \<and> p_unit ?row = p_unit b
            \<and> p_reorderLevel ?row = p_reorderLevel b
     else p_category ?row = ''MEDICINE'' \<and> p_unit ?row = ''pcs'' \<and> p_reorderLevel ?row = 10"
  proof (cases family)
    case Nil
    then have "\<not> (\<exists>b \<in> set db. p_storeId b = sid
        \<and> toLowerCase (p_name b) = toLowerCase (medicine_name item))"
      using mem by auto
    moreover have "p_category ?row = ''MEDICINE'' \<and> p_unit ?row = ''pcs'' \<and> p_reorderLevel ?row = 10"
      using Nil by (simp add: create_of_blueprint)
    ultimately show ?thesis by (simp only: if_False)
  next
    case (Cons b bs)
    then have "b \<in> set family" by simp
    then have b: "b \<in> set db" "p_storeId b = sid"
      "toLowerCase (p_name b) = toLowerCase (medicine_name item)"
      using mem by blast+
    moreover have "p_category ?row = p_category b \<and> p_unit ?row = p_unit b
        \<and> p_reorderLevel ?row = p_reorderLevel b"
      using Cons by (simp add: create_of_blueprint)
    ultimately show ?thesis by auto
  qed
  have fields: "p_storeId ?row = sid
     \<and> p_name ?row = medicine_name item
     \<and> p_quantity ?row = or_0 (Number (quantity item))
     \<and> p_batchNumber ?row = (if batch_number item = [] then None else Some (batch_number item))
     \<and> p_expiryDate ?row =
          (if expiry_date item = [] then None else parseExpiryDate rt (expiry_date item))
     \<and> p_mrp ?row = Some (or_0 (Number (mrp item)))
     \<and> p_costPrice ?row = Some (or_0 (Number (rate item)))
     \<and> p_sellingPrice ?row = Some (or_0 (Number (mrp item)))
     \<and> p_manufacturer ?row =
          (case supplier item of None \<Rightarrow> None | Some s \<Rightarrow> if s = [] then None else Some s)"
    by (simp add: create_of_fields or_undefined_def split: option.split)
  show ?thesis
    by (rule exI [of _ ?row]) (use step fields blueprint in blast)
qed

subsection \<open>The theorems at concrete inputs\<close>

lemma dolo_family:
  "findMany (no_failure k) ''s1'' (medicine_name (dolo_item b q)) [dolo_batch] = Some [dolo_batch]"
  by (simp add: findMany_def no_failure_def dolo_batch_def dolo_item_def toLowerCase_def
      toLowerCase_char_def)

lemma expiry_05_26:
  "parseExpiryDate bare_runtime ''05/26'' = Some \<lparr>d_year = 2026, d_month = 5, d_day = 1, d_time = 0\<rparr>"
  by code_simp

lemma Number_12: "StringToNumber ''12'' = Fin 12"
  by code_simp


theorem create_path_new_batch_witness:
  "\<exists>row. reconcile_item bare_runtime (no_failure 0) ''s1'' (dolo_item ''B-2'' (JStr ''12'')) [dolo_batch]
            = (Inr Created, [dolo_batch, row])
     \<and> p_quantity row = 12 \<and> p_batchNumber row = Some ''B-2''
     \<and> p_expiryDate row = Some \<lparr>d_year = 2026, d_month = 5, d_day = 1, d_time = 0\<rparr>
     \<and> p_mrp row = Some 35 \<and> p_costPrice row = Some 20 \<and> p_sellingPrice row = Some 35
     \<and> p_manufacturer row = Some ''Acme''
     \<and> p_category row = ''TABLET'' \<and> p_unit row = ''strip'' \<and> p_reorderLevel row = 5"
proof -
  have m: "exact_batch_match [dolo_batch] (batch_number (dolo_item ''B-2'' (JStr ''12''))) = None"
    by (simp add: exact_batch_match_def dolo_batch_def dolo_item_def)
  have w: "\<not> write_fails (no_failure 0)"
    by (auto simp: no_failure_def)
  from create_path_new_batch [OF dolo_family m w, of bare_runtime]
  obtain row where
    "reconcile_item bare_runtime (no_failure 0) ''s1'' (dolo_item ''B-2'' (JStr ''12'')) [dolo_batch]
       = (Inr Created, [dolo_batch] @ [row])"
    "p_quantity row = or_0 (Number (quantity (dolo_item ''B-2'' (JStr ''12''))))"
    "p_batchNumber row = (if batch_number (dolo_item ''B-2'' (JStr ''12'')) = [] then None
       else Some (batch_number (dolo_item ''B-2'' (JStr ''12''))))"
    "p_expiryDate row = (if expiry_date (dolo_item ''B-2'' (JStr ''12'')) = [] then None
       else parseExpiryDate bare_runtime (expiry_date (dolo_item ''B-2'' (JStr ''12''))))"
    "p_mrp row = Some (or_0 (Number (mrp (dolo_item ''B-2'' (JStr ''12'')))))"
    "p_costPrice row = Some (or_0 (Number (rate (dolo_item ''B-2'' (JStr ''12'')))))"
    "p_sellingPrice row = Some (or_0 (Number (mrp (dolo_item ''B-2'' (JStr ''12'')))))"
    "p_manufacturer row = (case supplier (dolo_item ''B-2'' (JStr ''12'')) of None \<Rightarrow> None
       | Some s \<Rightarrow> if s = [] then None else Some s)"
    "if \<exists>b \<in> set [dolo_batch]. p_storeId b = ''s1''
          \<and> toLowerCase (p_name b) = toLowerCase (medicine_name (dolo_item ''B-2'' (JStr ''12'')))
     then \<exists>b \<in> set [dolo_batch]. p_storeId b = ''s1''
          \<and> toLowerCase (p_name b) = toLowerCase (medicine_name (dolo_item ''B-2'' (JStr ''12'')))
          \<and> p_category row = p_category b \<and> p_unit row = p_unit b
          \<and> p_reorderLevel row = p_reorderLevel b
     else p_category row = ''MEDICINE'' \<and> p_unit row = ''pcs'' \<and> p_reorderLevel row = 10"
    by blast
  then show ?thesis
    by (intro exI [of _ row])
      (simp add: dolo_batch_def dolo_item_def expiry_05_26 Number_12 toLowerCase_def
        toLowerCase_char_def)
qed

theorem confirmImport_failure_keeps_earlier_writes_witness:
  "\<exists>created updated db_k.
     confirmImport bare_runtime (write_fails_at 1) (Some ''s1'')
       (Some [dolo_item ''B-1'' (JNum 5)]) [dolo_batch] =
       (\<lparr> status = 200, success = True, message = confirmed_message created updated \<rparr>, db_k)
     \<and> created + updated = 1
     \<and> confirmImport bare_runtime (write_fails_at 1) (Some ''s1'')
       (Some [dolo_item ''B-1'' (JNum 5), dolo_item ''B-2'' (JNum 7)]) [dolo_batch] =
       (\<lparr> status = 500, success = False, message = ''Failed to save inventory'' \<rparr>, db_k)"
  using confirmImport_failure_keeps_earlier_writes
    [of "''s1''" 1 "[dolo_item ''B-1'' (JNum 5), dolo_item ''B-2'' (JNum 7)]" "write_fails_at 1"
        bare_runtime "[dolo_batch]"]
  by (auto simp: write_fails_at_def)

subsection \<open>Runs of the import on the sample data\<close>

lemmas reconcile_eval =
  reconcile_item_def findMany_def exact_batch_match_def update_def create_def update_of_def
  apply_update_def create_of_fields or_str_def or_undefined_def toLowerCase_def
  toLowerCase_char_def

text \<open>
  C8 as stated does not hold: the failure response carries no count of the items
  processed before the error. Two imports of the same two items, one whose first write
  fails and one whose second write fails, get the same response, although the first
  leaves the stock at 10 and the second has added the first item's 5.
\<close>

theorem failure_response_same_whatever_was_processed:
  "fst (confirmImport bare_runtime (write_fails_at 0) (Some ''s1'')
          (Some [dolo_item ''B-1'' (JNum 5), dolo_item ''B-1'' (JNum 7)]) [dolo_batch])
     = \<lparr> status = 500, success = False, message = ''Failed to save inventory'' \<rparr>
   \<and> map p_quantity (snd (confirmImport bare_runtime (write_fails_at 0) (Some ''s1'')
          (Some [dolo_item ''B-1'' (JNum 5), dolo_item ''B-1'' (JNum 7)]) [dolo_batch])) = [10]
   \<and> fst (confirmImport bare_runtime (write_fails_at 1) (Some ''s1'')
          (Some [dolo_item ''B-1'' (JNum 5), dolo_item ''B-1'' (JNum 7)]) [dolo_batch])
     = \<lparr> status = 500, success = False, message = ''Failed to save inventory'' \<rparr>
   \<and> map p_quantity (snd (confirmImport bare_runtime (write_fails_at 1) (Some ''s1'')
          (Some [dolo_item ''B-1'' (JNum 5), dolo_item ''B-1'' (JNum 7)]) [dolo_batch])) = [15]"
  by (simp add: confirmImport_def reconcile_eval write_fails_at_def dolo_batch_def dolo_item_def)

text \<open>
  C1, at an item without a batch number. In an empty store the item takes the create
  path, which stores \<^verbatim>\<open>batch || undefined\<close>, that is no batch number at all
  (\<^verbatim>\<open>null\<close>). The next item of the same name and the same empty batch number finds
  that row among the rows of its name, but the comparison
  \<^verbatim>\<open>p.batchNumber === batch\<close> of \<^verbatim>\<open>null\<close> with the empty string fails: there is
  no exact batch match.
\<close>

theorem empty_batch_number_is_not_matched_again:
  "fst (reconcile_item bare_runtime (no_failure 0) ''s1'' (dolo_item [] (JNum 5)) []) = Inr Created
   \<and> map p_name (snd (reconcile_item bare_runtime (no_failure 0) ''s1'' (dolo_item [] (JNum 5)) []))
       = [''DOLO 650'']
   \<and> map p_batchNumber (snd (reconcile_item bare_runtime (no_failure 0) ''s1'' (dolo_item [] (JNum 5)) []))
       = [None]
   \<and> (case findMany (no_failure 1) ''s1'' (medicine_name (dolo_item [] (JNum 7)))
              (snd (reconcile_item bare_runtime (no_failure 0) ''s1'' (dolo_item [] (JNum 5)) [])) of
         None \<Rightarrow> False
       | Some existingProducts \<Rightarrow>
           length existingProducts = 1
           \<and> exact_batch_match existingProducts (batch_number (dolo_item [] (JNum 7))) = None)"
  by (simp add: reconcile_eval no_failure_def dolo_item_def)

text \<open>
  C2, at items without a batch number. Importing the same name and the same empty batch
  number twice, with quantities 5 and 7, creates two rows with quantities 5 and 7 and
  reports two new batches and no stock update: no row holds the sum 12.
\<close>

theorem repeated_import_without_batch_number_duplicates:
  "fst (confirmImport bare_runtime no_failure (Some ''s1'')
          (Some [dolo_item [] (JNum 5), dolo_item [] (JNum 7)]) [])
     = \<lparr> status = 200, success = True,
         message = ''Import confirmed. 2 new batches, 0 stock updates.'' \<rparr>
   \<and> map p_quantity (snd (confirmImport bare_runtime no_failure (Some ''s1'')
          (Some [dolo_item [] (JNum 5), dolo_item [] (JNum 7)]) [])) = [5, 7]
   \<and> map p_batchNumber (snd (confirmImport bare_runtime no_failure (Some ''s1'')
          (Some [dolo_item [] (JNum 5), dolo_item [] (JNum 7)]) [])) = [None, None]"
  by (simp add: confirmImport_def reconcile_eval no_failure_def dolo_item_def
      confirmed_message_def show_nat.simps digit_char_def)

subsection \<open>Repeated imports of one batch\<close>

lemma find_filter:
  "find P (filter Q xs) = (case filter (\<lambda>x. Q x \<and> P x) xs of [] \<Rightarrow> None | x # ys \<Rightarrow> Some x)"
  by (induction xs) simp_all

lemma exact_batch_match_batch_rows:
  assumes "findMany e sid n' db = Some family" "toLowerCase n' = toLowerCase n"
  shows "exact_batch_match family b =
     (case batch_rows sid n b db of [] \<Rightarrow> None | m # ms \<Rightarrow> Some m)"
proof -
  have "family = filter (\<lambda>p. p_storeId p = sid \<and> toLowerCase (p_name p) = toLowerCase n) db"
    using assms by (auto simp: findMany_def split: if_splits)
  then show ?thesis
    by (simp add: exact_batch_match_def batch_rows_def find_filter conj_assoc)
qed

lemma fold_max_upper: "a \<le> fold max xs a \<and> (\<forall>x \<in> set xs. x \<le> fold max xs (a::nat))"
proof (induction xs arbitrary: a)
  case Nil
  then show ?case by simp
next
  case (Cons y ys)
  have "max y a \<le> fold max ys (max y a)" "\<forall>x \<in> set ys. x \<le> fold max ys (max y a)"
    using Cons.IH [of "max y a"] by simp_all
  then show ?case by auto
qed

lemma fresh_id_new: "fresh_id db \<notin> set (map p_id db)"
proof
  assume "fresh_id db \<in> set (map p_id db)"
  then have "fresh_id db \<le> fold max (map p_id db) 0"
    using fold_max_upper [of 0 "map p_id db"] by blast
  then show False by (simp add: fresh_id_def)
qed

lemma batch_update_step:
  assumes ids: "distinct (map p_id db)"
    and rows: "batch_rows sid n b db = m # ms"
    and b: "b \<noteq> []"
    and item: "toLowerCase (medicine_name item) = toLowerCase n" "batch_number item = b"
    and ok: "\<not> find_fails e" "\<not> write_fails e"
  shows "\<exists>db'. reconcile_item rt e sid item db = (Inr Updated, db')
     \<and> distinct (map p_id db')
     \<and> batch_rows sid n b db' \<noteq> []
     \<and> batch_stock sid n b db' = batch_stock sid n b db + or_0 (Number (quantity item))"
proof -
  let ?d = "update_of rt m item"
  let ?f = "\<lambda>p. if p_id p = p_id m then apply_update ?d p else p"
  let ?key = "\<lambda>p. p_storeId p = sid \<and> toLowerCase (p_name p) = toLowerCase n
                \<and> p_batchNumber p = Some b"
  obtain family where fam: "findMany e sid (medicine_name item) db = Some family"
    using ok(1) by (simp add: findMany_def)
  have match: "exact_batch_match family (batch_number item) = Some m"
    using exact_batch_match_batch_rows [OF fam item(1), of b] rows item(2) by simp
  have step: "reconcile_item rt e sid item db = (Inr Updated, map ?f db)"
    using reconcile_item_update [OF fam match ok(2)] .
  have "m \<in> set (filter ?key db)"
    using rows by (simp add: batch_rows_def)
  then have m: "m \<in> set db" "?key m"
    by simp_all
  have batch_kept: "p_batchNumber (apply_update ?d m) = Some b"
    using m(2) b by (simp add: apply_update_def update_of_def Let_def or_str_def or_undefined_def)
  have key: "?key (?f p) \<longleftrightarrow> ?key p" if "p \<in> set db" for p
  proof (cases "p_id p = p_id m")
    case True
    then have "p = m"
      using ids that m(1) by (meson distinct_map inj_onD)
    then show ?thesis
      using m(2) batch_kept by (simp add: apply_update_def)
  qed simp
  have "filter ?key (map ?f db) = map ?f (filter (\<lambda>p. ?key (?f p)) db)"
    by (simp add: filter_map comp_def)
  also have "filter (\<lambda>p. ?key (?f p)) db = filter ?key db"
    using key by (intro filter_cong) auto
  finally have rows': "batch_rows sid n b (map ?f db) = ?f m # map ?f ms"
    using rows by (simp add: batch_rows_def)
  have qty: "p_quantity (?f m) = p_quantity m + or_0 (Number (quantity item))"
    by (simp add: apply_update_def update_of_def Let_def)
  have "p_id (?f p) = p_id p" for p
    by (simp add: apply_update_def)
  then have "map p_id (map ?f db) = map p_id db"
    by (simp only: map_map comp_def)
  then have "distinct (map p_id (map ?f db))"
    using ids by (simp only:)
  moreover have "batch_stock sid n b (map ?f db) = batch_stock sid n b db + or_0 (Number (quantity item))"
    using rows rows' qty by (simp add: batch_stock_def)
  ultimately show ?thesis
    using step rows' by auto
qed

lemma batch_create_step:
  assumes ids: "distinct (map p_id db)"
    and rows: "batch_rows sid n b db = []"
    and b: "b \<noteq> []"
    and item: "toLowerCase (medicine_name item) = toLowerCase n" "batch_number item = b"
    and ok: "\<not> find_fails e" "\<not> write_fails e"
  shows "\<exists>db'. reconcile_item rt e sid item db = (Inr Created, db')
     \<and> distinct (map p_id db')
     \<and> batch_rows sid n b db' \<noteq> []
     \<and> batch_stock sid n b db' = batch_stock sid n b db + or_0 (Number (quantity item))"
proof -
  obtain family where fam: "findMany e sid (medicine_name item) db = Some family"
    using ok(1) by (simp add: findMany_def)
  let ?row = "(create_of rt e sid family item) \<lparr> p_id := fresh_id db \<rparr>"
  have match: "exact_batch_match family (batch_number item) = None"
    using exact_batch_match_batch_rows [OF fam item(1), of b] rows item(2) by simp
  have step: "reconcile_item rt e sid item db = (Inr Created, db @ [?row])"
    using reconcile_item_create [OF fam match ok(2)] .
  have rows': "batch_rows sid n b (db @ [?row]) = [?row]"
    using rows item b by (simp add: batch_rows_def create_of_fields or_undefined_def)
  have "distinct (map p_id (db @ [?row]))"
    using ids fresh_id_new [of db] by simp
  moreover have "batch_stock sid n b (db @ [?row]) = batch_stock sid n b db + or_0 (Number (quantity item))"
    using rows rows' by (simp add: batch_stock_def create_of_fields)
  ultimately show ?thesis
    using step rows' by auto
qed

lemma reconcile_one_batch:
  assumes "distinct (map p_id db)" "b \<noteq> []"
    and "\<forall>item \<in> set its. toLowerCase (medicine_name item) = toLowerCase n \<and> batch_number item = b"
    and "\<forall>j < length its. \<not> find_fails (env (k + j)) \<and> \<not> write_fails (env (k + j))"
  shows "\<exists>c' u' db'. reconcile rt env sid k its (c, u) db = (Inr (c', u'), db')
     \<and> c' = c + (if batch_rows sid n b db = [] \<and> its \<noteq> [] then 1 else 0)
     \<and> c' + u' = c + u + length its
     \<and> batch_stock sid n b db' =
         batch_stock sid n b db + sum_list (map (\<lambda>item. or_0 (Number (quantity item))) its)"
  using assms
proof (induction its arbitrary: k c u db)
  case Nil
  then show ?case by simp
next
  case (Cons item its)
  have item: "toLowerCase (medicine_name item) = toLowerCase n" "batch_number item = b"
    using Cons.prems(3) by simp_all
  have ok: "\<not> find_fails (env k)" "\<not> write_fails (env k)"
    using Cons.prems(4) by force+
  have rest_items: "\<forall>item \<in> set its. toLowerCase (medicine_name item) = toLowerCase n \<and> batch_number item = b"
    using Cons.prems(3) by simp
  have rest_ok: "\<forall>j < length its. \<not> find_fails (env (Suc k + j)) \<and> \<not> write_fails (env (Suc k + j))"
    using Cons.prems(4) by force
  show ?case
  proof (cases "batch_rows sid n b db")
    case Nil
    obtain db1 where step: "reconcile_item rt (env k) sid item db = (Inr Created, db1)"
      and ids1: "distinct (map p_id db1)" and rows1: "batch_rows sid n b db1 \<noteq> []"
      and stock1: "batch_stock sid n b db1 = batch_stock sid n b db + or_0 (Number (quantity item))"
      using batch_create_step [OF Cons.prems(1) Nil Cons.prems(2) item ok] by blast
    obtain c' u' db' where run: "reconcile rt env sid (Suc k) its (Suc c, u) db1 = (Inr (c', u'), db')"
      and counts: "c' = Suc c + (if batch_rows sid n b db1 = [] \<and> its \<noteq> [] then 1 else 0)"
        "c' + u' = Suc c + u + length its"
      and stock: "batch_stock sid n b db' =
         batch_stock sid n b db1 + sum_list (map (\<lambda>item. or_0 (Number (quantity item))) its)"
      using Cons.IH [OF ids1 Cons.prems(2) rest_items rest_ok] by blast
    show ?thesis
      using step run counts stock stock1 rows1 Nil by simp
  next
    case (Cons m ms)
    obtain db1 where step: "reconcile_item rt (env k) sid item db = (Inr Updated, db1)"
      and ids1: "distinct (map p_id db1)" and rows1: "batch_rows sid n b db1 \<noteq> []"
      and stock1: "batch_stock sid n b db1 = batch_stock sid n b db + or_0 (Number (quantity item))"
      using batch_update_step [OF Cons.prems(1) Cons Cons.prems(2) item ok] by blast
    obtain c' u' db' where run: "reconcile rt env sid (Suc k) its (c, Suc u) db1 = (Inr (c', u'), db')"
      and counts: "c' = c + (if batch_rows sid n b db1 = [] \<and> its \<noteq> [] then 1 else 0)"
        "c' + u' = c + Suc u + length its"
      and stock: "batch_stock sid n b db' =
         batch_stock sid n b db1 + sum_list (map (\<lambda>item. or_0 (Number (quantity item))) its)"
      using Cons.IH [OF ids1 Cons.prems(2) rest_items rest_ok] by blast
    show ?thesis
      using step run counts stock stock1 rows1 Cons by simp
  qed
qed

text \<open>
  The update path adds the item's quantity to the quantity of the matched row.
\<close>

lemma update_path_adds_quantity:
  assumes "findMany e sid (medicine_name item) db = Some family"
    and "exact_batch_match family (batch_number item) = Some m"
    and "\<not> write_fails e"
  shows "\<exists>db'. reconcile_item rt e sid item db = (Inr Updated, db')
     \<and> (\<exists>p' \<in> set db'. p_id p' = p_id m)
     \<and> (\<forall>p' \<in> set db'. p_id p' = p_id m \<longrightarrow>
          p_quantity p' = p_quantity m + or_0 (Number (quantity item)))"
proof -
  let ?d = "update_of rt m item"
  let ?f = "\<lambda>p. if p_id p = p_id m then apply_update ?d p else p"
  have step: "reconcile_item rt e sid item db = (Inr Updated, map ?f db)"
    using reconcile_item_update [OF assms] .
  have "m \<in> set db"
    using assms(1,2) findMany_subset exact_batch_match_SomeD by blast
  then have "?f m \<in> ?f ` set db"
    by (rule imageI)
  then have present: "\<exists>p' \<in> set (map ?f db). p_id p' = p_id m"
    by (intro bexI [of _ "?f m"]) (simp_all add: apply_update_def)
  have "p_quantity (?f p) = p_quantity m + or_0 (Number (quantity item))"
    if "p_id (?f p) = p_id m" for p
    using that by (simp add: apply_update_def update_of_def Let_def split: if_splits)
  then have "\<forall>p' \<in> set (map ?f db). p_id p' = p_id m \<longrightarrow>
      p_quantity p' = p_quantity m + or_0 (Number (quantity item))"
    by (simp only: set_map) blast
  then show ?thesis
    using step present by blast
qed

text \<open>
  Importing items of one name (up to case) and one non-empty batch number, with no
  failure, into a store whose rows have distinct ids: the first item creates the batch
  when the store has none and every other item updates it, and the stock of the batch
  grows by the sum of the items' quantities.
\<close>

lemma repeated_import_of_one_batch_adds_up:
  assumes "distinct (map p_id db)" "b \<noteq> []" "sid \<noteq> []"
    and "\<forall>item \<in> set its. toLowerCase (medicine_name item) = toLowerCase n \<and> batch_number item = b"
    and "\<forall>j < length its. \<not> find_fails (env j) \<and> \<not> write_fails (env j)"
  shows "\<exists>c u db'. confirmImport rt env (Some sid) (Some its) db =
         (\<lparr> status = 200, success = True, message = confirmed_message c u \<rparr>, db')
     \<and> c = (if batch_rows sid n b db = [] \<and> its \<noteq> [] then 1 else 0)
     \<and> c + u = length its
     \<and> batch_stock sid n b db' =
         batch_stock sid n b db + sum_list (map (\<lambda>item. or_0 (Number (quantity item))) its)"
proof -
  have "\<forall>j < length its. \<not> find_fails (env (0 + j)) \<and> \<not> write_fails (env (0 + j))"
    using assms(5) by simp
  from reconcile_one_batch [OF assms(1,2,4) this, of rt sid 0 0]
  obtain c u db' where run: "reconcile rt env sid 0 its (0, 0) db = (Inr (c, u), db')"
    and counts: "c = (if batch_rows sid n b db = [] \<and> its \<noteq> [] then 1 else 0)" "c + u = length its"
    and stock: "batch_stock sid n b db' =
         batch_stock sid n b db + sum_list (map (\<lambda>item. or_0 (Number (quantity item))) its)"
    by auto
  have "confirmImport rt env (Some sid) (Some its) db =
         (\<lparr> status = 200, success = True, message = confirmed_message c u \<rparr>, db')"
    using run assms(3) by (simp add: confirmImport_def)
  then show ?thesis
    using counts stock by blast
qed

lemma repeated_import_of_one_batch_sample:
  "\<exists>db'. confirmImport bare_runtime no_failure (Some ''s1'')
          (Some [dolo_item ''B-1'' (JNum 5), dolo_item ''B-1'' (JNum 7)]) [] =
         (\<lparr> status = 200, success = True, message = confirmed_message 1 1 \<rparr>, db')
     \<and> batch_stock ''s1'' ''DOLO 650'' ''B-1'' db' = 12"
proof -
  have q: "or_0 (Number (quantity (dolo_item ''B-1'' (JNum x)))) = x" for x
    by (simp add: dolo_item_def)
  from repeated_import_of_one_batch_adds_up [of "[]" "''B-1''" "''s1''"
      "[dolo_item ''B-1'' (JNum 5), dolo_item ''B-1'' (JNum 7)]" "''DOLO 650''" no_failure bare_runtime]
  obtain c u db' where "confirmImport bare_runtime no_failure (Some ''s1'')
          (Some [dolo_item ''B-1'' (JNum 5), dolo_item ''B-1'' (JNum 7)]) [] =
         (\<lparr> status = 200, success = True, message = confirmed_message c u \<rparr>, db')"
    "c = 1" "c + u = 2" "batch_stock ''s1'' ''DOLO 650'' ''B-1'' db' = 12"
    by (auto simp: no_failure_def dolo_item_def batch_rows_def batch_stock_def)
  then show ?thesis by auto
qed

section \<open>Properties of \<^verbatim>\<open>parseExpiryDate\<close>\<close>

lemma not_digit_sep: "sep = CHR ''/'' \<or> sep = CHR ''-'' \<Longrightarrow> \<not> is_digit sep"
  by (auto simp: is_digit_def)

lemma takeWhile_digits:
  "list_all is_digit g \<Longrightarrow> \<not> is_digit sep \<Longrightarrow> takeWhile is_digit (g @ sep # r) = g"
  by (induction g) simp_all

lemma dropWhile_digits:
  "list_all is_digit g \<Longrightarrow> \<not> is_digit sep \<Longrightarrow> dropWhile is_digit (g @ sep # r) = sep # r"
  by (induction g) simp_all

lemma shortMatch_form:
  assumes "list_all is_digit g1" "length g1 = 1 \<or> length g1 = 2"
    and "sep = CHR ''/'' \<or> sep = CHR ''-''"
    and "list_all is_digit g2" "length g2 = 2"
  shows "shortMatch (g1 @ sep # g2) = Some (g1, g2)"
  using assms not_digit_sep [OF assms(3)]
  by (simp add: shortMatch_def takeWhile_digits dropWhile_digits)

lemma shortMatch_SomeD:
  assumes "shortMatch s = Some (g1, g2)"
  shows "\<exists>sep. s = g1 @ sep # g2 \<and> list_all is_digit g1 \<and> (length g1 = 1 \<or> length g1 = 2)
     \<and> (sep = CHR ''/'' \<or> sep = CHR ''-'') \<and> list_all is_digit g2 \<and> length g2 = 2"
proof -
  obtain sep r where r: "dropWhile is_digit s = sep # r"
    using assms by (auto simp: shortMatch_def Let_def split: list.splits)
  have s: "s = takeWhile is_digit s @ sep # r"
    using r by (metis takeWhile_dropWhile_id)
  have digits: "list_all is_digit (takeWhile is_digit s)"
    by (simp add: list_all_iff) (meson set_takeWhileD)
  show ?thesis
    using assms r s digits
    by (auto simp: shortMatch_def Let_def split: if_splits)
qed

lemma isoMatch_form:
  assumes "list_all is_digit g1" "length g1 = 4"
    and "list_all is_digit g2" "length g2 = 1 \<or> length g2 = 2"
  shows "isoMatch (g1 @ CHR ''-'' # g2) = Some (g1, g2)"
    and "shortMatch (g1 @ CHR ''-'' # g2) = None"
  using assms not_digit_sep [of "CHR ''-''"]
  by (simp_all add: isoMatch_def shortMatch_def takeWhile_digits dropWhile_digits)

lemma isoMatch_SomeD:
  assumes "isoMatch s = Some (g1, g2)"
  shows "s = g1 @ CHR ''-'' # g2 \<and> list_all is_digit g1 \<and> length g1 = 4
     \<and> list_all is_digit g2 \<and> (length g2 = 1 \<or> length g2 = 2)"
proof -
  obtain sep r where r: "dropWhile is_digit s = sep # r"
    using assms by (auto simp: isoMatch_def Let_def split: list.splits)
  have s: "s = takeWhile is_digit s @ sep # r"
    using r by (metis takeWhile_dropWhile_id)
  have digits: "list_all is_digit (takeWhile is_digit s)"
    by (simp add: list_all_iff) (meson set_takeWhileD)
  show ?thesis
    using assms r s digits
    by (auto simp: isoMatch_def Let_def split: if_splits)
qed

lemma parseInt_nonneg: "0 \<le> parseInt ds"
  by (simp add: parseInt_def)

lemma new_Date_day1_in_year:
  assumes "100 \<le> year" "1 \<le> month" "month \<le> 12"
  shows "new_Date_day1 year (month - 1) =
    \<lparr> d_year = year, d_month = nat month, d_day = 1, d_time = 0 \<rparr>"
proof -
  have "(month - 1) div 12 = 0" "(month - 1) mod 12 = month - 1"
    using assms by simp_all
  then show ?thesis
    using assms by (simp add: new_Date_day1_def Let_def nat_diff_distrib')
qed

lemma parseExpiryDate_short:
  assumes "shortMatch s = Some (g1, g2)"
  shows "parseExpiryDate rt s =
    Some (new_Date_day1 (if parseInt g2 < 50 then 2000 + parseInt g2 else 1900 + parseInt g2)
            (parseInt g1 - 1))"
proof -
  have "s \<noteq> []"
    using assms by (auto simp: shortMatch_def)
  then show ?thesis
    using assms by (simp add: parseExpiryDate_def Let_def)
qed

lemma parseExpiryDate_iso:
  assumes "shortMatch s = None" "isoMatch s = Some (g1, g2)"
  shows "parseExpiryDate rt s = Some (new_Date_day1 (parseInt g1) (parseInt g2 - 1))"
proof -
  have "s \<noteq> []"
    using assms(2) by (auto simp: isoMatch_def)
  then show ?thesis
    using assms by (simp add: parseExpiryDate_def)
qed

text \<open>
  C7, as amended. The rules apply in order and the first match wins. The empty string
  gives no date, whatever the runtime's date parser would do. One or two digits, a
  slash or hyphen and two digits give \<^verbatim>\<open>new Date(year, month - 1, 1)\<close> with the year
  2000 + yy when yy < 50 and 1900 + yy otherwise: for a month from 1 to 12 that is the
  first day of that month of that year. Four digits, a hyphen and one or two digits give
  \<^verbatim>\<open>new Date(yyyy, month - 1, 1)\<close>: for a year from 100 on and a month from 1 to
  12 that is the first day of that month of that year. (Month 0 and months above 12
  carry into the neighbouring years, and a year below 100 counts from 1900, as the
  \<^verbatim>\<open>Date\<close> constructor does.) Any other string gives what the runtime's date parser
  gives, and no date when that fails.
\<close>

theorem parseExpiryDate_rules:
  "parseExpiryDate rt [] = None
   \<and> (\<forall>m sep y. list_all is_digit m \<and> (length m = 1 \<or> length m = 2)
          \<and> (sep = CHR ''/'' \<or> sep = CHR ''-'') \<and> list_all is_digit y \<and> length y = 2 \<longrightarrow>
        parseExpiryDate rt (m @ sep # y) =
          Some (new_Date_day1 (if parseInt y < 50 then 2000 + parseInt y else 1900 + parseInt y)
                  (parseInt m - 1))
        \<and> (1 \<le> parseInt m \<and> parseInt m \<le> 12 \<longrightarrow>
            parseExpiryDate rt (m @ sep # y) =
              Some \<lparr> d_year = (if parseInt y < 50 then 2000 + parseInt y else 1900 + parseInt y),
                     d_month = nat (parseInt m), d_day = 1, d_time = 0 \<rparr>))
   \<and> (\<forall>y m. list_all is_digit y \<and> length y = 4
          \<and> list_all is_digit m \<and> (length m = 1 \<or> length m = 2) \<longrightarrow>
        parseExpiryDate rt (y @ CHR ''-'' # m) = Some (new_Date_day1 (parseInt y) (parseInt m - 1))
        \<and> (100 \<le> parseInt y \<and> 1 \<le> parseInt m \<and> parseInt m \<le> 12 \<longrightarrow>
            parseExpiryDate rt (y @ CHR ''-'' # m) =
              Some \<lparr> d_year = parseInt y, d_month = nat (parseInt m), d_day = 1, d_time = 0 \<rparr>))
   \<and> (\<forall>s. s \<noteq> []
          \<and> \<not> (\<exists>m sep y. s = m @ sep # y \<and> list_all is_digit m \<and> (length m = 1 \<or> length m = 2)
                 \<and> (sep = CHR ''/'' \<or> sep = CHR ''-'') \<and> list_all is_digit y \<and> length y = 2)
          \<and> \<not> (\<exists>y m. s = y @ CHR ''-'' # m \<and> list_all is_digit y \<and> length y = 4
                 \<and> list_all is_digit m \<and> (length m = 1 \<or> length m = 2)) \<longrightarrow>
        parseExpiryDate rt s = Date_parse rt s)"
proof (intro conjI allI impI)
  show "parseExpiryDate rt [] = None"
    by (simp add: parseExpiryDate_def)
next
  fix m sep y
  assume h: "list_all is_digit m \<and> (length m = 1 \<or> length m = 2)
          \<and> (sep = CHR ''/'' \<or> sep = CHR ''-'') \<and> list_all is_digit y \<and> length y = 2"
  then have sm: "shortMatch (m @ sep # y) = Some (m, y)"
    by (intro shortMatch_form) simp_all
  show general: "parseExpiryDate rt (m @ sep # y) =
      Some (new_Date_day1 (if parseInt y < 50 then 2000 + parseInt y else 1900 + parseInt y)
              (parseInt m - 1))"
    by (rule parseExpiryDate_short [OF sm])
  assume month: "1 \<le> parseInt m \<and> parseInt m \<le> 12"
  have "100 \<le> (if parseInt y < 50 then 2000 + parseInt y else 1900 + parseInt y)"
    using parseInt_nonneg [of y] by simp
  then show "parseExpiryDate rt (m @ sep # y) =
      Some \<lparr> d_year = (if parseInt y < 50 then 2000 + parseInt y else 1900 + parseInt y),
             d_month = nat (parseInt m), d_day = 1, d_time = 0 \<rparr>"
    using general month by (simp only: new_Date_day1_in_year)
next
  fix y m
  assume h: "list_all is_digit y \<and> length y = 4
          \<and> list_all is_digit m \<and> (length m = 1 \<or> length m = 2)"
  then have im: "isoMatch (y @ CHR ''-'' # m) = Some (y, m)"
    and sm: "shortMatch (y @ CHR ''-'' # m) = None"
    by (simp_all add: isoMatch_form)
  show general: "parseExpiryDate rt (y @ CHR ''-'' # m) =
      Some (new_Date_day1 (parseInt y) (parseInt m - 1))"
    by (rule parseExpiryDate_iso [OF sm im])
  assume "100 \<le> parseInt y \<and> 1 \<le> parseInt m \<and> parseInt m \<le> 12"
  then show "parseExpiryDate rt (y @ CHR ''-'' # m) =
      Some \<lparr> d_year = parseInt y, d_month = nat (parseInt m), d_day = 1, d_time = 0 \<rparr>"
    using general by (simp only: new_Date_day1_in_year)
next
  fix s :: string
  assume h: "s \<noteq> []
          \<and> \<not> (\<exists>m sep y. s = m @ sep # y \<and> list_all is_digit m \<and> (length m = 1 \<or> length m = 2)
                 \<and> (sep = CHR ''/'' \<or> sep = CHR ''-'') \<and> list_all is_digit y \<and> length y = 2)
          \<and> \<not> (\<exists>y m. s = y @ CHR ''-'' # m \<and> list_all is_digit y \<and> length y = 4
                 \<and> list_all is_digit m \<and> (length m = 1 \<or> length m = 2))"
  have "shortMatch s = None"
  proof (cases "shortMatch s")
    case (Some g)
    then show ?thesis
      using h shortMatch_SomeD [of s "fst g" "snd g"] by (cases g) auto
  qed simp
  moreover have "isoMatch s = None"
  proof (cases "isoMatch s")
    case (Some g)
    then show ?thesis
      using h isoMatch_SomeD [of s "fst g" "snd g"] by (cases g) auto
  qed simp
  ultimately show "parseExpiryDate rt s = Date_parse rt s"
    using h by (simp add: parseExpiryDate_def)
qed

text \<open>
  C7 as stated does not hold for every string of one or two digits, a separator and two
  digits: \<^verbatim>\<open>13/26\<close> matches the first rule, and the result is the first of January
  2027, not a day of the year 2000 + 26.
\<close>

theorem month_13_rolls_into_next_year:
  "parseExpiryDate bare_runtime ''13/26'' =
     Some \<lparr> d_year = 2027, d_month = 1, d_day = 1, d_time = 0 \<rparr>"
  by code_simp

text \<open>The rules at the strings \<^verbatim>\<open>05/26\<close>, \<^verbatim>\<open>2025-11\<close> and \<^verbatim>\<open>not-a-date\<close>.\<close>

lemma parseInt_samples:
  "parseInt ''05'' = 5" "parseInt ''26'' = 26" "parseInt ''2025'' = 2025" "parseInt ''11'' = 11"
  by code_simp+

theorem parseExpiryDate_rules_witness:
  "parseExpiryDate bare_runtime [] = None
   \<and> parseExpiryDate bare_runtime ''05/26'' =
       Some \<lparr> d_year = 2026, d_month = 5, d_day = 1, d_time = 0 \<rparr>
   \<and> parseExpiryDate bare_runtime ''2025-11'' =
       Some \<lparr> d_year = 2025, d_month = 11, d_day = 1, d_time = 0 \<rparr>
   \<and> parseExpiryDate bare_runtime ''not-a-date'' = None"
proof -
  note rules = parseExpiryDate_rules [of bare_runtime]
  have empty: "parseExpiryDate bare_runtime [] = None"
    using rules by (rule conjunct1)
  have short: "parseExpiryDate bare_runtime (''05'' @ CHR ''/'' # ''26'') =
      Some \<lparr> d_year = 2026, d_month = 5, d_day = 1, d_time = 0 \<rparr>"
    using rules [THEN conjunct2, THEN conjunct1, THEN spec, THEN spec, THEN spec,
        of "''05''" "CHR ''/''" "''26''"]
    by (simp add: is_digit_def parseInt_samples new_Date_day1_def)
  have iso: "parseExpiryDate bare_runtime (''2025'' @ CHR ''-'' # ''11'') =
      Some \<lparr> d_year = 2025, d_month = 11, d_day = 1, d_time = 0 \<rparr>"
    using rules [THEN conjunct2, THEN conjunct2, THEN conjunct1, THEN spec, THEN spec,
        of "''2025''" "''11''"]
    by (simp add: is_digit_def parseInt_samples new_Date_day1_def)
  have no_short: "\<not> (\<exists>m sep y. ''not-a-date'' = m @ sep # y \<and> list_all is_digit m
      \<and> (length m = 1 \<or> length m = 2)
      \<and> (sep = CHR ''/'' \<or> sep = CHR ''-'') \<and> list_all is_digit y \<and> length y = 2)"
    by (auto simp: Cons_eq_append_conv is_digit_def)
  have no_iso: "\<not> (\<exists>y m. ''not-a-date'' = y @ CHR ''-'' # m \<and> list_all is_digit y \<and> length y = 4
      \<and> list_all is_digit m \<and> (length m = 1 \<or> length m = 2))"
    by (auto simp: Cons_eq_append_conv is_digit_def)
  have other: "parseExpiryDate bare_runtime ''not-a-date'' = None"
    using rules [THEN conjunct2, THEN conjunct2, THEN conjunct2, THEN spec, of "''not-a-date''"]
      no_short no_iso
    by (simp add: bare_runtime_def)
  show ?thesis
    using empty short iso other by simp
qed

section \<open>Properties of \<^verbatim>\<open>parseBillText\<close>\<close>

subsection \<open>The items\<close>




text \<open>
  The item \<^verbatim>\<open>{"medicine_name":"X","quantity":"10","mrp":"50"}\<close> of the spec's parser
  scenario: the quantity 10 and the mrp 50 as numbers, and an empty batch number.
\<close>

theorem normalize_item_sample:
  "normalize_item rt
     (JObj [(''medicine_name'', JStr ''X''), (''quantity'', JStr ''10''), (''mrp'', JStr ''50'')])
   = Inr \<lparr> medicine_name = ''X'', quantity = 10, batch_number = [], expiry_date = [],
           mrp = 50, rate = 0 \<rparr>"
proof -
  have "StringToNumber ''10'' = Fin 10" "StringToNumber ''50'' = Fin 50"
    by code_simp+
  then show ?thesis
    by (simp add: normalize_item_def read_prop_def or_js_def)
qed


subsection \<open>Errors\<close>

lemma parseBillText_returns: "\<exists>bill. parseBillText rt answer text = Inr bill"
  by (simp add: parseBillText_def split: sum.split)

text \<open>
  C5, as amended. \<^verbatim>\<open>parseBillText\<close> never throws, whatever the reply to its request:
  it always returns a bill. When the JSON parsing of the text extracted from the reply
  fails, the bill is \<^verbatim>\<open>{ items: [] }\<close>: no items and no invoice field. A failure of
  the request itself is caught by the same \<^verbatim>\<open>catch\<close> block and gives that bill too:
  no error, transport-level or other, propagates out of \<^verbatim>\<open>parseBillText\<close>.
\<close>

theorem parseBillText_never_throws:
  "(\<exists>bill. parseBillText rt answer text = Inr bill)
   \<and> (\<forall>msg. answer text = Rejected msg \<longrightarrow> parseBillText rt answer text = Inr no_items)
   \<and> (\<forall>content. answer text = Content content
         \<and> JSON_parse rt
              (extract_json (case content of None \<Rightarrow> ''{}'' | Some s \<Rightarrow> if s \<noteq> [] then s else ''{}''))
             = None \<longrightarrow>
        parseBillText rt answer text = Inr no_items)
   \<and> items no_items = [] \<and> invoiceNumber no_items = JUndefined
   \<and> invoiceDate no_items = JUndefined \<and> supplierName no_items = JUndefined
   \<and> totalAmount no_items = None"
  by (auto simp: parseBillText_def parseBillText_try_def no_items_def Let_def split: sum.split)

theorem parseBillText_never_throws_witness:
  "parseBillText bare_runtime (\<lambda>text. Content (Some ''Sorry, I cannot read this bill.'')) ''bill''
     = Inr no_items
   \<and> parseBillText bare_runtime (\<lambda>text. Rejected ''connect ETIMEDOUT'') ''bill'' = Inr no_items"
  using parseBillText_never_throws
      [of bare_runtime "\<lambda>text. Content (Some ''Sorry, I cannot read this bill.'')" "''bill''"]
    parseBillText_never_throws [of bare_runtime "\<lambda>text. Rejected ''connect ETIMEDOUT''" "''bill''"]
  by (simp add: bare_runtime_def)

text \<open>
  C5 as stated does not hold: a transport-level failure does not propagate. When the
  request is rejected, \<^verbatim>\<open>parseBillText\<close> returns \<^verbatim>\<open>{ items: [] }\<close> like for any
  other failure.
\<close>

theorem transport_failure_does_not_propagate:
  "parseBillText sample_runtime (\<lambda>text. Rejected ''connect ETIMEDOUT'') ''bill'' = Inr no_items"
  by (simp add: parseBillText_def parseBillText_try_def)

text \<open>
  The spec's parser scenario as a whole: a reply that wraps the JSON text in a fenced
  block gives the one item.
\<close>

lemma extract_json_sample: "extract_json sample_reply = sample_json"
  unfolding sample_reply_def sample_json_def fence_def by code_simp

theorem parseBillText_sample:
  "parseBillText sample_runtime (\<lambda>text. Content (Some sample_reply)) ''bill''
   = Inr \<lparr> invoiceNumber = JUndefined, invoiceDate = JUndefined, supplierName = JUndefined,
           totalAmount = Some 0,
           items = [\<lparr> medicine_name = ''X'', quantity = 10, batch_number = [], expiry_date = [],
                      mrp = 50, rate = 0 \<rparr>] \<rparr>"
proof -
  have nonempty: "sample_reply \<noteq> []"
    by (simp add: sample_reply_def fence_def)
  have parsed: "JSON_parse sample_runtime sample_json =
      Some (JObj [(''items'',
              JArr [JObj [(''medicine_name'', JStr ''X''), (''quantity'', JStr ''10''),
                          (''mrp'', JStr ''50'')]])])"
    by (simp add: sample_runtime_def)
  show ?thesis
    using nonempty
    by (simp add: parseBillText_def parseBillText_try_def extract_json_sample parsed
        normalize_item_sample read_prop_def or_js_def)
qed

section \<open>Properties of \<^verbatim>\<open>importBill\<close>\<close>

lemma process_pages_step:
  assumes "extractTextFromImage page = Inr text"
  shows "process_pages rt (page # pages) (allItems, invoiceData) =
     process_pages rt pages
       (allItems @ items (page_bill rt page),
        if \<not> truthy (invoiceNumber invoiceData) \<and> truthy (invoiceNumber (page_bill rt page))
        then invoice_of (page_bill rt page) else invoiceData)"
proof -
  obtain bill where bill: "parseBillText rt (chat page) text = Inr bill"
    using parseBillText_returns by blast
  then have "page_bill rt page = bill"
    using assms by (simp add: page_bill_def)
  then show ?thesis
    using assms bill by (simp add: invoice_of_def)
qed

lemma invoice_of_number: "invoiceNumber (invoice_of bill) = invoiceNumber bill"
  by (simp add: invoice_of_def)

lemma process_pages_all_read:
  assumes "\<forall>page \<in> set pages. \<exists>text. extractTextFromImage page = Inr text"
  shows "process_pages rt pages (allItems, invoiceData) =
     Inr (allItems @ concat (map (\<lambda>page. items (page_bill rt page)) pages),
          if truthy (invoiceNumber invoiceData) then invoiceData
          else (case find (\<lambda>page. truthy (invoiceNumber (page_bill rt page))) pages of
                  None \<Rightarrow> invoiceData
                | Some page \<Rightarrow> invoice_of (page_bill rt page)))"
  using assms
proof (induction pages arbitrary: allItems invoiceData)
  case Nil
  then show ?case by simp
next
  case (Cons page pages)
  obtain ocr where ocr: "extractTextFromImage page = Inr ocr"
    using Cons.prems by auto
  have rest: "\<forall>page \<in> set pages. \<exists>text. extractTextFromImage page = Inr text"
    using Cons.prems by simp
  show ?case
    unfolding process_pages_step [OF ocr] Cons.IH [OF rest]
    by (simp add: invoice_of_number)
qed

text \<open>
  C9, as amended. For a document of several pages whose texts are all read, the response
  carries the items of all pages, concatenated in page order (and normalized), and the
  four invoice fields of one page only: the first page whose parsed bill has a non-empty
  invoice number, all four as that page has them. Once that page's fields are adopted,
  the fields of every later page are ignored, and nothing is merged from any other page:
  the metadata of a page without an invoice number is never adopted. When no page has an
  invoice number, the invoice stays empty.
\<close>

theorem importBill_first_invoice_wins:
  assumes "mimetype f = ''application/pdf''"
    and "convertPdfToImages env = Inr pages"
    and "\<forall>page \<in> set pages. \<exists>text. extractTextFromImage page = Inr text"
  shows "importBill rt env (Some f) =
     ImportOk
       (map (normalize_name rt) (concat (map (\<lambda>page. items (page_bill rt page)) pages)))
       (case find (\<lambda>page. truthy (invoiceNumber (page_bill rt page))) pages of
          None \<Rightarrow> empty_invoice
        | Some page \<Rightarrow> invoice_of (page_bill rt page))"
  using assms(1,2) process_pages_all_read [OF assms(3), of rt "[]" empty_invoice]
  by (simp add: importBill_def empty_invoice_def)

text \<open>The theorem at a document of three pages.\<close>

lemma page_bills:
  "page_bill sample_runtime (page_replying page_one_json) =
     \<lparr> invoiceNumber = JUndefined, invoiceDate = JUndefined, supplierName = JStr ''Early'',
       totalAmount = Some 0,
       items = [\<lparr> medicine_name = ''A'', quantity = 1, batch_number = [], expiry_date = [],
                  mrp = 0, rate = 0 \<rparr>] \<rparr>"
  "page_bill sample_runtime (page_replying page_two_json) =
     \<lparr> invoiceNumber = JStr ''INV-2'', invoiceDate = JUndefined, supplierName = JUndefined,
       totalAmount = Some 0,
       items = [\<lparr> medicine_name = ''B'', quantity = 2, batch_number = [], expiry_date = [],
                  mrp = 0, rate = 0 \<rparr>] \<rparr>"
  "page_bill sample_runtime (page_replying page_three_json) =
     \<lparr> invoiceNumber = JStr ''INV-3'', invoiceDate = JUndefined, supplierName = JStr ''Late'',
       totalAmount = Some 0,
       items = [\<lparr> medicine_name = ''C'', quantity = 3, batch_number = [], expiry_date = [],
                  mrp = 0, rate = 0 \<rparr>] \<rparr>"
  by code_simp+

theorem importBill_first_invoice_wins_witness:
  "importBill sample_runtime three_pages (Some \<lparr> path = ''bill.pdf'', mimetype = ''application/pdf'' \<rparr>) =
     ImportOk
       [\<lparr> medicine_name = ''A'', quantity = 1, batch_number = [], expiry_date = [],
           mrp = 0, rate = 0, original_name = ''A'' \<rparr>,
        \<lparr> medicine_name = ''B'', quantity = 2, batch_number = [], expiry_date = [],
           mrp = 0, rate = 0, original_name = ''B'' \<rparr>,
        \<lparr> medicine_name = ''C'', quantity = 3, batch_number = [], expiry_date = [],
           mrp = 0, rate = 0, original_name = ''C'' \<rparr>]
       \<lparr> invoiceNumber = JStr ''INV-2'', invoiceDate = JUndefined, supplierName = JUndefined,
         totalAmount = Some 0 \<rparr>"
proof -
  have pdf: "mimetype \<lparr> path = ''bill.pdf'', mimetype = ''application/pdf'' \<rparr> = ''application/pdf''"
    by simp
  have pages: "convertPdfToImages three_pages =
      Inr [page_replying page_one_json, page_replying page_two_json, page_replying page_three_json]"
    by (simp add: three_pages_def)
  have read: "\<forall>page \<in> set [page_replying page_one_json, page_replying page_two_json,
      page_replying page_three_json]. \<exists>text. extractTextFromImage page = Inr text"
    by (simp add: page_replying_def extractTextFromImage_def)
  have same: "normalizeMedicineName sample_runtime = (\<lambda>s. s)"
    by (simp add: sample_runtime_def)
  show ?thesis
    unfolding importBill_first_invoice_wins [OF pdf pages read, of sample_runtime]
    by (simp add: page_bills invoice_of_def normalize_name_def same)
qed

text \<open>
  C9 as stated does not hold: what is retained is not the first page's non-empty
  metadata. In a document whose first page names the supplier \<^verbatim>\<open>Early\<close> without an
  invoice number and whose second page has the invoice number \<^verbatim>\<open>INV-3\<close> and the
  supplier \<^verbatim>\<open>Late\<close>, the first page's supplier is dropped and the later page's
  metadata is adopted.
\<close>

theorem first_page_supplier_is_not_retained:
  "supplierName (page_bill sample_runtime (page_replying page_one_json)) = JStr ''Early''
   \<and> importBill sample_runtime early_late_pages
         (Some \<lparr> path = ''bill.pdf'', mimetype = ''application/pdf'' \<rparr>) =
       ImportOk
         [\<lparr> medicine_name = ''A'', quantity = 1, batch_number = [], expiry_date = [],
             mrp = 0, rate = 0, original_name = ''A'' \<rparr>,
          \<lparr> medicine_name = ''C'', quantity = 3, batch_number = [], expiry_date = [],
             mrp = 0, rate = 0, original_name = ''C'' \<rparr>]
         \<lparr> invoiceNumber = JStr ''INV-3'', invoiceDate = JUndefined, supplierName = JStr ''Late'',
           totalAmount = Some 0 \<rparr>"
proof -
  have read: "\<forall>page \<in> set [page_replying page_one_json, page_replying page_three_json].
      \<exists>text. extractTextFromImage page = Inr text"
    by (simp add: page_replying_def extractTextFromImage_def)
  have same: "normalizeMedicineName sample_runtime = (\<lambda>s. s)"
    by (simp add: sample_runtime_def)
  have "process_pages sample_runtime [page_replying page_one_json, page_replying page_three_json]
          ([], empty_invoice) =
        Inr ([\<lparr> medicine_name = ''A'', quantity = 1, batch_number = [], expiry_date = [],
                 mrp = 0, rate = 0 \<rparr>,
              \<lparr> medicine_name = ''C'', quantity = 3, batch_number = [], expiry_date = [],
                 mrp = 0, rate = 0 \<rparr>],
             \<lparr> invoiceNumber = JStr ''INV-3'', invoiceDate = JUndefined,
               supplierName = JStr ''Late'', totalAmount = Some 0 \<rparr>)"
    unfolding process_pages_all_read [OF read, of sample_runtime "[]" empty_invoice]
    by (simp add: page_bills invoice_of_def empty_invoice_def)
  then show ?thesis
    by (simp add: importBill_def early_late_pages_def page_bills normalize_name_def same)
qed

end
